theory Spec2Isabelle
  imports Complex_Main "HOL-Library.Sublist"
begin

section \<open>Numbers\<close>

text \<open>
  A number of the source is an IEEE 754 double: a finite value, an infinity or NaN. The two
  zeros are one value here. The code modelled below divides only by 180, by 2 and by the
  difference of two numbers of which one is greater than a third and the other is not; it
  takes \<open>atan2\<close> of two square roots only. So it never observes the sign of a zero.
  \<open>Finite\<close> may hold any real; every operation below returns a representable one.
\<close>

datatype double = Finite real | PosInf | NegInf | NaN

text \<open>
  The binary exponent of a positive real, found by halving and doubling; \<open>n\<close> bounds the
  number of steps.
\<close>

fun ilog2 :: "nat \<Rightarrow> real \<Rightarrow> int" where
  "ilog2 0 x = 0"
| "ilog2 (Suc n) x =
     (if 2 \<le> x then ilog2 n (x / 2) + 1
      else if x < 1 then ilog2 n (x * 2) - 1
      else 0)"

text \<open>The nearest integer, a tie going to the even one.\<close>

definition rne :: "real \<Rightarrow> int" where
  "rne x =
     (let f = \<lfloor>x\<rfloor>; d = x - of_int f
      in if d < 1 / 2 then f
         else if 1 / 2 < d then f + 1
         else if even f then f else f + 1)"

text \<open>
  Rounding of a real to the nearest double, ties to even: 53 significant bits, the least
  exponent of a unit in the last place is \<open>-1074\<close>, and a result of \<open>2 ^ 1024\<close> or more is an
  infinity.
\<close>

definition rnd :: "real \<Rightarrow> double" where
  "rnd x =
     (let a = \<bar>x\<bar> in
      if 2 ^ 1024 \<le> a then (if 0 < x then PosInf else NegInf)
      else if a < 2 powi (- 1075) then Finite 0
      else
        (let q = max (ilog2 1100 a) (- 1022) - 52;
             y = of_int (rne (a / 2 powi q)) * 2 powi q
         in if 2 ^ 1024 \<le> y then (if 0 < x then PosInf else NegInf)
            else Finite (if x < 0 then - y else y)))"

fun fadd :: "double \<Rightarrow> double \<Rightarrow> double" where
  "fadd NaN y = NaN"
| "fadd x NaN = NaN"
| "fadd PosInf NegInf = NaN"
| "fadd NegInf PosInf = NaN"
| "fadd PosInf y = PosInf"
| "fadd NegInf y = NegInf"
| "fadd x PosInf = PosInf"
| "fadd x NegInf = NegInf"
| "fadd (Finite x) (Finite y) = rnd (x + y)"

fun fsub :: "double \<Rightarrow> double \<Rightarrow> double" where
  "fsub NaN y = NaN"
| "fsub x NaN = NaN"
| "fsub PosInf PosInf = NaN"
| "fsub NegInf NegInf = NaN"
| "fsub PosInf y = PosInf"
| "fsub NegInf y = NegInf"
| "fsub x PosInf = NegInf"
| "fsub x NegInf = PosInf"
| "fsub (Finite x) (Finite y) = rnd (x - y)"

text \<open>The sign of a product or quotient with an infinity.\<close>

definition signed_inf :: "bool \<Rightarrow> double" where
  "signed_inf positive = (if positive then PosInf else NegInf)"

fun fmul :: "double \<Rightarrow> double \<Rightarrow> double" where
  "fmul NaN y = NaN"
| "fmul x NaN = NaN"
| "fmul PosInf PosInf = PosInf"
| "fmul PosInf NegInf = NegInf"
| "fmul NegInf PosInf = NegInf"
| "fmul NegInf NegInf = PosInf"
| "fmul PosInf (Finite y) = (if y = 0 then NaN else signed_inf (0 < y))"
| "fmul NegInf (Finite y) = (if y = 0 then NaN else signed_inf (y < 0))"
| "fmul (Finite x) PosInf = (if x = 0 then NaN else signed_inf (0 < x))"
| "fmul (Finite x) NegInf = (if x = 0 then NaN else signed_inf (x < 0))"
| "fmul (Finite x) (Finite y) = rnd (x * y)"

fun fdiv :: "double \<Rightarrow> double \<Rightarrow> double" where
  "fdiv NaN y = NaN"
| "fdiv x NaN = NaN"
| "fdiv PosInf PosInf = NaN"
| "fdiv PosInf NegInf = NaN"
| "fdiv NegInf PosInf = NaN"
| "fdiv NegInf NegInf = NaN"
| "fdiv PosInf (Finite y) = signed_inf (0 \<le> y)"
| "fdiv NegInf (Finite y) = signed_inf (y < 0)"
| "fdiv (Finite x) PosInf = Finite 0"
| "fdiv (Finite x) NegInf = Finite 0"
| "fdiv (Finite x) (Finite y) =
     (if y = 0 then (if x = 0 then NaN else signed_inf (0 < x)) else rnd (x / y))"

text \<open>\<open>x < y\<close> and \<open>x <= y\<close>: false as soon as one side is NaN.\<close>

fun flt :: "double \<Rightarrow> double \<Rightarrow> bool" where
  "flt NaN y = False"
| "flt x NaN = False"
| "flt PosInf y = False"
| "flt x NegInf = False"
| "flt NegInf y = True"
| "flt x PosInf = True"
| "flt (Finite x) (Finite y) = (x < y)"

fun fle :: "double \<Rightarrow> double \<Rightarrow> bool" where
  "fle NaN y = False"
| "fle x NaN = False"
| "fle NegInf y = True"
| "fle x PosInf = True"
| "fle PosInf y = False"
| "fle x NegInf = False"
| "fle (Finite x) (Finite y) = (x \<le> y)"

text \<open>A number is truthy when it is neither zero nor NaN.\<close>

definition ftruthy :: "double \<Rightarrow> bool" where
  "ftruthy x = (case x of NaN \<Rightarrow> False | Finite v \<Rightarrow> v \<noteq> 0 | _ \<Rightarrow> True)"

subsection \<open>The Math object\<close>

text \<open>
  The language leaves the values of \<open>Math.sin\<close>, \<open>Math.cos\<close> and \<open>Math.atan2\<close> to the
  platform, except at the arguments it lists. A platform gives the sine and cosine of a
  finite number other than zero, and the arc tangent where the language names no value.
\<close>

record platform =
  psin :: "real \<Rightarrow> double"
  pcos :: "real \<Rightarrow> double"
  patan2 :: "double \<Rightarrow> double \<Rightarrow> double"

text \<open>\<open>Math.PI\<close>, the double nearest to \<open>\<pi>\<close>.\<close>

definition Math_PI :: double where
  "Math_PI = Finite (884279719003555 / 281474976710656)"

definition Math_sin :: "platform \<Rightarrow> double \<Rightarrow> double" where
  "Math_sin p x = (case x of Finite v \<Rightarrow> if v = 0 then Finite 0 else psin p v | _ \<Rightarrow> NaN)"

definition Math_cos :: "platform \<Rightarrow> double \<Rightarrow> double" where
  "Math_cos p x = (case x of Finite v \<Rightarrow> if v = 0 then Finite 1 else pcos p v | _ \<Rightarrow> NaN)"

text \<open>\<open>Math.sqrt\<close>: NaN below zero, else the correctly rounded root.\<close>

definition Math_sqrt :: "double \<Rightarrow> double" where
  "Math_sqrt x =
     (case x of
        Finite v \<Rightarrow> if v < 0 then NaN else rnd (sqrt v)
      | PosInf \<Rightarrow> PosInf
      | _ \<Rightarrow> NaN)"

text \<open>
  \<open>Math.atan2(y, x)\<close>: NaN when an argument is NaN, zero when \<open>y\<close> is zero and \<open>x\<close> is zero
  or positive, else the platform's value.
\<close>

definition Math_atan2 :: "platform \<Rightarrow> double \<Rightarrow> double \<Rightarrow> double" where
  "Math_atan2 p y x =
     (if y = NaN \<or> x = NaN then NaN
      else if y = Finite 0 \<and> (case x of Finite v \<Rightarrow> 0 \<le> v | PosInf \<Rightarrow> True | _ \<Rightarrow> False)
      then Finite 0
      else patan2 p y x)"

subsection \<open>Arithmetic as a parameter\<close>

text \<open>
  The geofence functions are written once, over the operations they use. The source runs
  them in double arithmetic (\<open>js\<close>); \<open>exact\<close> runs the same expressions over the reals,
  without rounding. \<open>a_num\<close> reads a number literal.
\<close>

record 'n arith =
  a_num :: "real \<Rightarrow> 'n"
  a_add :: "'n \<Rightarrow> 'n \<Rightarrow> 'n"
  a_sub :: "'n \<Rightarrow> 'n \<Rightarrow> 'n"
  a_mul :: "'n \<Rightarrow> 'n \<Rightarrow> 'n"
  a_div :: "'n \<Rightarrow> 'n \<Rightarrow> 'n"
  a_lt :: "'n \<Rightarrow> 'n \<Rightarrow> bool"
  a_le :: "'n \<Rightarrow> 'n \<Rightarrow> bool"
  a_truthy :: "'n \<Rightarrow> bool"
  a_PI :: 'n
  a_sin :: "'n \<Rightarrow> 'n"
  a_cos :: "'n \<Rightarrow> 'n"
  a_sqrt :: "'n \<Rightarrow> 'n"
  a_atan2 :: "'n \<Rightarrow> 'n \<Rightarrow> 'n"

text \<open>\<open>x > y\<close> is \<open>y < x\<close>, also when one side is NaN.\<close>

definition a_gt :: "'n arith \<Rightarrow> 'n \<Rightarrow> 'n \<Rightarrow> bool" where
  "a_gt ar x y = a_lt ar y x"

definition js :: "platform \<Rightarrow> double arith" where
  "js p =
     \<lparr> a_num = rnd, a_add = fadd, a_sub = fsub, a_mul = fmul, a_div = fdiv,
       a_lt = flt, a_le = fle, a_truthy = ftruthy, a_PI = Math_PI,
       a_sin = Math_sin p, a_cos = Math_cos p, a_sqrt = Math_sqrt,
       a_atan2 = Math_atan2 p \<rparr>"

text \<open>The two-argument arc tangent of reals.\<close>

definition atan2 :: "real \<Rightarrow> real \<Rightarrow> real" where
  "atan2 y x =
     (if 0 < x then arctan (y / x)
      else if x < 0 then (if 0 \<le> y then arctan (y / x) + pi else arctan (y / x) - pi)
      else if 0 < y then pi / 2
      else if y < 0 then - (pi / 2)
      else 0)"

definition exact :: "real arith" where
  "exact =
     \<lparr> a_num = (\<lambda>x. x), a_add = (+), a_sub = (-), a_mul = (\<lambda>x y. x * y), a_div = (/),
       a_lt = (<), a_le = (\<le>), a_truthy = (\<lambda>x. x \<noteq> 0), a_PI = pi,
       a_sin = sin, a_cos = cos, a_sqrt = sqrt, a_atan2 = atan2 \<rparr>"

section \<open>Geofence evaluation\<close>

record 'n LatLng =
  latitude :: 'n
  longitude :: 'n

text \<open>\<open>HostelBoundary\<close> of \<open>config/hostels.ts\<close>: points are required, center and radius optional.\<close>

record 'n HostelBoundary =
  points :: "'n LatLng list"
  center :: "'n LatLng option"
  radius :: "'n option"

text \<open>The haversine term \<open>a\<close> of \<open>getDistance\<close>, operation by operation as in the source.\<close>

definition haversine_a :: "'n arith \<Rightarrow> 'n \<Rightarrow> 'n \<Rightarrow> 'n \<Rightarrow> 'n \<Rightarrow> 'n" where
  "haversine_a ar lat1 lon1 lat2 lon2 =
     (let phi1 = a_div ar (a_mul ar lat1 (a_PI ar)) (a_num ar 180);
          phi2 = a_div ar (a_mul ar lat2 (a_PI ar)) (a_num ar 180);
          dphi = a_div ar (a_mul ar (a_sub ar lat2 lat1) (a_PI ar)) (a_num ar 180);
          dlambda = a_div ar (a_mul ar (a_sub ar lon2 lon1) (a_PI ar)) (a_num ar 180);
          s1 = a_sin ar (a_div ar dphi (a_num ar 2));
          s2 = a_sin ar (a_div ar dlambda (a_num ar 2))
      in a_add ar (a_mul ar s1 s1)
           (a_mul ar (a_mul ar (a_mul ar (a_cos ar phi1) (a_cos ar phi2)) s2) s2))"

definition getDistance :: "'n arith \<Rightarrow> 'n \<Rightarrow> 'n \<Rightarrow> 'n \<Rightarrow> 'n \<Rightarrow> 'n" where
  "getDistance ar lat1 lon1 lat2 lon2 =
     (let R = a_num ar 6371000;
          a = haversine_a ar lat1 lon1 lat2 lon2;
          c = a_mul ar (a_num ar 2)
                (a_atan2 ar (a_sqrt ar a) (a_sqrt ar (a_sub ar (a_num ar 1) a)))
      in a_mul ar R c)"

subsection \<open>Point in polygon, server side\<close>

text \<open>
  The loop body of the server's \<open>isPointInPolygon\<close> for the vertex pair \<open>(polygon[i], polygon[j])\<close>:
  \<open>xi\<close> is a latitude and \<open>yi\<close> a longitude. The conjunction is short-circuit, so the
  division is only evaluated when one of \<open>yi\<close>, \<open>yj\<close> is greater than \<open>lon\<close> and the other
  is not.
\<close>

definition intersect :: "'n arith \<Rightarrow> 'n \<Rightarrow> 'n \<Rightarrow> 'n LatLng \<Rightarrow> 'n LatLng \<Rightarrow> bool" where
  "intersect ar lat lon vi vj =
     (let xi = latitude vi; yi = longitude vi;
          xj = latitude vj; yj = longitude vj
      in (a_gt ar yi lon \<noteq> a_gt ar yj lon) \<and>
         a_lt ar lat
           (a_add ar (a_div ar (a_mul ar (a_sub ar xj xi) (a_sub ar lon yi)) (a_sub ar yj yi)) xi))"

text \<open>
  The \<open>for\<close> loop: \<open>vj\<close> is \<open>polygon[j]\<close>, the vertex visited just before (\<open>j = i++\<close>),
  the list holds the vertices from index \<open>i\<close> on.
\<close>

fun pip_loop :: "'n arith \<Rightarrow> 'n \<Rightarrow> 'n \<Rightarrow> 'n LatLng \<Rightarrow> 'n LatLng list \<Rightarrow> bool \<Rightarrow> bool" where
  "pip_loop ar lat lon vj [] inside = inside"
| "pip_loop ar lat lon vj (vi # rest) inside =
     pip_loop ar lat lon vi rest (if intersect ar lat lon vi vj then \<not> inside else inside)"

text \<open>
  \<open>j\<close> starts at \<open>polygon.length - 1\<close>; on the empty polygon the loop body never runs.
\<close>

definition isPointInPolygon :: "'n arith \<Rightarrow> 'n \<Rightarrow> 'n \<Rightarrow> 'n LatLng list \<Rightarrow> bool" where
  "isPointInPolygon ar lat lon polygon =
     (if polygon = [] then False
      else pip_loop ar lat lon (last polygon) polygon False)"

subsection \<open>Point in polygon, client side\<close>

text \<open>The client's copy takes longitude as X and latitude as Y.\<close>

definition intersect_client :: "'n arith \<Rightarrow> 'n \<Rightarrow> 'n \<Rightarrow> 'n LatLng \<Rightarrow> 'n LatLng \<Rightarrow> bool" where
  "intersect_client ar lat lon vi vj =
     (let xi = longitude vi; yi = latitude vi;
          xj = longitude vj; yj = latitude vj
      in (a_gt ar yi lat \<noteq> a_gt ar yj lat) \<and>
         a_lt ar lon
           (a_add ar (a_div ar (a_mul ar (a_sub ar xj xi) (a_sub ar lat yi)) (a_sub ar yj yi)) xi))"

fun pip_loop_client ::
  "'n arith \<Rightarrow> 'n \<Rightarrow> 'n \<Rightarrow> 'n LatLng \<Rightarrow> 'n LatLng list \<Rightarrow> bool \<Rightarrow> bool" where
  "pip_loop_client ar lat lon vj [] inside = inside"
| "pip_loop_client ar lat lon vj (vi # rest) inside =
     pip_loop_client ar lat lon vi rest
       (if intersect_client ar lat lon vi vj then \<not> inside else inside)"

definition isPointInPolygon_client :: "'n arith \<Rightarrow> 'n \<Rightarrow> 'n \<Rightarrow> 'n LatLng list \<Rightarrow> bool" where
  "isPointInPolygon_client ar lat lon polygon =
     (if polygon = [] then False
      else pip_loop_client ar lat lon (last polygon) polygon False)"

subsection \<open>Edges of a polygon\<close>

text \<open>
  What "the query point lies on an edge or vertex" means, for real coordinates: the point is
  on the closed segment between two consecutive vertices (the last vertex is joined to the
  first). The cross product vanishes and the point lies in the bounding box of the segment.
\<close>

definition onSegment :: "real \<Rightarrow> real \<Rightarrow> real LatLng \<Rightarrow> real LatLng \<Rightarrow> bool" where
  "onSegment lat lon a b =
     ((latitude b - latitude a) * (lon - longitude a) =
        (longitude b - longitude a) * (lat - latitude a) \<and>
      min (latitude a) (latitude b) \<le> lat \<and> lat \<le> max (latitude a) (latitude b) \<and>
      min (longitude a) (longitude b) \<le> lon \<and> lon \<le> max (longitude a) (longitude b))"

text \<open>The pairs \<open>(polygon[i], polygon[j])\<close> in the order the loops visit them.\<close>

definition polygonEdges :: "'n LatLng list \<Rightarrow> ('n LatLng \<times> 'n LatLng) list" where
  "polygonEdges polygon =
     (if polygon = [] then [] else zip polygon (last polygon # butlast polygon))"

definition onBoundary :: "real \<Rightarrow> real \<Rightarrow> real LatLng list \<Rightarrow> bool" where
  "onBoundary lat lon polygon =
     list_ex (\<lambda>(a, b). onSegment lat lon a b) (polygonEdges polygon)"

text \<open>A vertex with latitude and longitude exchanged, and a real vertex as a double one.\<close>

definition swapAxes :: "'n LatLng \<Rightarrow> 'n LatLng" where
  "swapAxes v = \<lparr> latitude = longitude v, longitude = latitude v \<rparr>"

definition finitePoint :: "real LatLng \<Rightarrow> double LatLng" where
  "finitePoint v = \<lparr> latitude = Finite (latitude v), longitude = Finite (longitude v) \<rparr>"

subsection \<open>Boundary of a hostel\<close>

text \<open>
  \<open>hostelConfig.radius && hostelConfig.center\<close>: the radius must be truthy and the center
  present.
\<close>

definition radiusMode :: "'n arith \<Rightarrow> 'n HostelBoundary \<Rightarrow> bool" where
  "radiusMode ar hostelConfig =
     ((case radius hostelConfig of None \<Rightarrow> False | Some r \<Rightarrow> a_truthy ar r) \<and>
      center hostelConfig \<noteq> None)"

text \<open>
  The computation of \<open>isInside\<close> in the handler, from the two numbers \<open>parseFloat\<close> returned.
\<close>

definition isInside :: "'n arith \<Rightarrow> 'n HostelBoundary \<Rightarrow> 'n \<Rightarrow> 'n \<Rightarrow> bool" where
  "isInside ar hostelConfig lat lon =
     (if radiusMode ar hostelConfig then
        (case (center hostelConfig, radius hostelConfig) of
           (Some c, Some r) \<Rightarrow>
             a_le ar (getDistance ar lat lon (latitude c) (longitude c)) r
         | _ \<Rightarrow> False)
      else isPointInPolygon ar lat lon (points hostelConfig))"

text \<open>
  The great-circle distance as the specification writes it, over the reals: the haversine
  term \<open>a\<close> from the squared sines of half the differences of latitude and longitude (in
  radians) and the cosines of the two latitudes, \<open>c = 2 * atan2 (sqrt a) (sqrt (1 - a))\<close>,
  and the distance \<open>R * c\<close> with \<open>R\<close> = 6371000 m.
\<close>

definition great_circle_distance :: "real \<Rightarrow> real \<Rightarrow> real \<Rightarrow> real \<Rightarrow> real" where
  "great_circle_distance lat1 lon1 lat2 lon2 =
     (let phi1 = lat1 * pi / 180; phi2 = lat2 * pi / 180;
          lambda1 = lon1 * pi / 180; lambda2 = lon2 * pi / 180;
          a = (sin ((phi2 - phi1) / 2))\<^sup>2 +
              cos phi1 * cos phi2 * (sin ((lambda2 - lambda1) / 2))\<^sup>2
      in 6371000 * (2 * atan2 (sqrt a) (sqrt (1 - a))))"

text \<open>
  The table of \<open>config/hostels.ts\<close>: every hostel is mapped to \<open>TEST_CONFIG\<close>. A decimal
  literal is the double nearest to it.
\<close>

definition TEST_CONFIG :: "double HostelBoundary" where
  "TEST_CONFIG =
     \<lparr> points =
         [\<lparr> latitude = rnd 11.63264, longitude = rnd 78.1320192 \<rparr>,
          \<lparr> latitude = rnd 11.63364, longitude = rnd 78.1320192 \<rparr>,
          \<lparr> latitude = rnd 11.63364, longitude = rnd 78.1330192 \<rparr>,
          \<lparr> latitude = rnd 11.63264, longitude = rnd 78.1330192 \<rparr>],
       center = Some \<lparr> latitude = rnd 11.63264, longitude = rnd 78.1320192 \<rparr>,
       radius = Some (rnd 3000) \<rparr>"

definition HOSTEL_LOCATIONS :: "string \<Rightarrow> double HostelBoundary option" where
  "HOSTEL_LOCATIONS =
     map_of
       [(''Kaveri Ladies Hostel'', TEST_CONFIG),
        (''Amaravathi Ladies Hostel'', TEST_CONFIG),
        (''Bhavani Ladies Hostel'', TEST_CONFIG),
        (''Dheeran Mens Hostel'', TEST_CONFIG),
        (''Valluvar Mens Hostel'', TEST_CONFIG),
        (''Ilango Mens Hostel'', TEST_CONFIG),
        (''Bharathi Mens Hostel'', TEST_CONFIG),
        (''Kamban Mens Hostel'', TEST_CONFIG),
        (''Ponnar Mens Hostel'', TEST_CONFIG),
        (''Sankar Mens Hostel'', TEST_CONFIG),
        (''TEST - My Location'', TEST_CONFIG)]"

text \<open>
  The table is a plain object, so a name that it does not hold itself may still be found
  on \<open>Object.prototype\<close>: the lookup then gives a function or object that has neither
  radius nor center nor points.
\<close>

definition objectPrototypeKeys :: "string list" where
  "objectPrototypeKeys =
     [''constructor'', ''__defineGetter__'', ''__defineSetter__'', ''hasOwnProperty'',
      ''__lookupGetter__'', ''__lookupSetter__'', ''isPrototypeOf'', ''propertyIsEnumerable'',
      ''toString'', ''valueOf'', ''__proto__'', ''toLocaleString'']"

datatype 'a lookup = Undefined | Own 'a | Inherited

definition lookupHostel ::
  "(string \<Rightarrow> double HostelBoundary option) \<Rightarrow> string \<Rightarrow> double HostelBoundary lookup" where
  "lookupHostel table name =
     (case table name of
        Some hostelConfig \<Rightarrow> Own hostelConfig
      | None \<Rightarrow> if name \<in> set objectPrototypeKeys then Inherited else Undefined)"

section \<open>Attendance ledger\<close>

type_synonym userId = string
type_synonym embedding = "real list"

text \<open>
  A coordinate field of the request body is a string. The handler looks at three things:
  whether it is truthy, whether it is the string \<open>"web"\<close>, and what \<open>parseFloat\<close> makes of it.
\<close>

datatype coord =
    CoordMissing
  | CoordWeb
  | CoordNum double
  | CoordNaN

text \<open>
  \<open>parseFloat\<close> of a string that starts with a number is that number, of any other string
  NaN; \<open>CoordNum\<close> holds the number.
\<close>

definition parseFloat :: "coord \<Rightarrow> double" where
  "parseFloat c = (case c of CoordNum d \<Rightarrow> d | _ \<Rightarrow> NaN)"

text \<open>
  A document of the \<open>Attendance\<close> collection. A \<open>Date\<close> is its time value, the milliseconds
  since the epoch. \<open>_id\<close> and \<open>markedAt\<close> are filled in by the storage layer and read by no
  code modelled here; they are left out.
\<close>

record IAttendance =
  userId :: userId
  date :: int
  isPresent :: bool
  photoUrl :: "string option"
  latitudeStr :: coord
  longitudeStr :: coord
  reason :: "string option"

text \<open>The fields of a \<open>User\<close> document that the handler reads.\<close>

record IUser =
  hostelBlock :: string
  faceEmbedding :: "embedding option"

text \<open>
  Local time of the server is a fixed offset \<open>tz\<close> (milliseconds east of UTC), without
  daylight saving. \<open>setHours(0, 0, 0, 0)\<close> and \<open>setHours(23, 59, 59, 999)\<close> move a time
  value to the first and last millisecond of its local day; \<open>setDate(getDate() \<plusminus> 1)\<close>
  moves it by one day.
\<close>

definition msPerDay :: int where
  "msPerDay = 86400000"

definition setHours_0_0_0_0 :: "int \<Rightarrow> int \<Rightarrow> int" where
  "setHours_0_0_0_0 tz t = t - (t + tz) mod msPerDay"

definition setHours_23_59_59_999 :: "int \<Rightarrow> int \<Rightarrow> int" where
  "setHours_23_59_59_999 tz t = setHours_0_0_0_0 tz t + (msPerDay - 1)"

text \<open>The local calendar day of a time value, as a day number.\<close>

definition localDay :: "int \<Rightarrow> int \<Rightarrow> int" where
  "localDay tz t = (t + tz) div msPerDay"

text \<open>\<open>Attendance.findOne({ userId, date: { $gte: lo, $lte: hi } })\<close>.\<close>

definition findOne :: "userId \<Rightarrow> int \<Rightarrow> int \<Rightarrow> IAttendance list \<Rightarrow> IAttendance option" where
  "findOne uid lo hi ledger =
     find (\<lambda>a. userId a = uid \<and> lo \<le> date a \<and> date a \<le> hi) ledger"

text \<open>
  Each awaited storage call may reject; which ones do is an input of the request. A
  rejected \<open>save\<close> inserts nothing.
\<close>

datatype dbcall = FindUser | FindAttendance | SaveAttendance

datatype check_response =
    Marked bool "IAttendance option"
  | CheckServerError

text \<open>\<open>GET /check/:userId/:date\<close>.\<close>

definition checkAttendance ::
  "int \<Rightarrow> (dbcall \<Rightarrow> bool) \<Rightarrow> userId \<Rightarrow> int \<Rightarrow> IAttendance list \<Rightarrow> check_response" where
  "checkAttendance tz faults uid d ledger =
     (let startOfDay = setHours_0_0_0_0 tz d - msPerDay;
          endOfDay = setHours_23_59_59_999 tz d + msPerDay
      in if faults FindAttendance then CheckServerError
         else (let attendance = findOne uid startOfDay endOfDay ledger
               in Marked (attendance \<noteq> None) attendance))"

section \<open>Check-in handler\<close>

text \<open>
  The body of \<open>POST /\<close>. An absent field is \<open>None\<close>; a string field is truthy when it is
  present and not empty.
\<close>

record request =
  body_userId :: userId
  body_date :: int
  body_isPresent :: "bool option"
  body_photoUrl :: "string option"
  body_latitude :: coord
  body_longitude :: coord
  body_reason :: "string option"
  body_selectedHostel :: "string option"

text \<open>What an awaited collaborator call does: it returns, or throws an error with a message.\<close>

datatype 'a outcome = Returned 'a | Thrown string

text \<open>
  The surroundings of the handler. \<open>getFaceEmbedding\<close> and \<open>calculateSimilarity\<close> belong to
  \<open>services/faceRecognition\<close> and the \<open>User\<close> collection to \<open>models/User\<close>; the handler is
  modelled for any of them, for any table of hostels in place of \<open>HOSTEL_LOCATIONS\<close> and
  for any platform's \<open>Math\<close>.
\<close>

record env =
  tzOffset :: int
  math :: platform
  users :: "userId \<Rightarrow> IUser option"
  hostels :: "string \<Rightarrow> double HostelBoundary option"
  getFaceEmbedding :: "string \<Rightarrow> embedding outcome"
  calculateSimilarity :: "embedding \<Rightarrow> embedding \<Rightarrow> real outcome"

text \<open>The collaborator calls a request makes, in order.\<close>

datatype call =
    CallFindById userId
  | CallFindOne userId
  | CallGetFaceEmbedding string
  | CallCalculateSimilarity embedding embedding
  | CallSave

text \<open>
  The responses of the handler, one constructor per \<open>res.status(...).json(...)\<close>.
  \<open>OutsideBoundaries\<close> carries the hostel named in the message, \<open>FaceError\<close> the message of
  the error thrown by \<open>getFaceEmbedding\<close>, \<open>FaceMismatch\<close> the number printed by
  \<open>similarity.toFixed(1)\<close>.
\<close>

datatype response =
    Created IAttendance
  | UserNotFound
  | AlreadyMarked
  | OutsideBoundaries string
  | FaceIdNotRegistered
  | FaceError string
  | FaceMismatch real
  | FaceServiceError
  | ServerError

fun status :: "response \<Rightarrow> nat" where
  "status (Created a) = 201"
| "status UserNotFound = 404"
| "status AlreadyMarked = 400"
| "status (OutsideBoundaries h) = 400"
| "status FaceIdNotRegistered = 400"
| "status (FaceError m) = 400"
| "status (FaceMismatch s) = 400"
| "status FaceServiceError = 500"
| "status ServerError = 500"

definition truthy :: "string option \<Rightarrow> bool" where
  "truthy s = (case s of None \<Rightarrow> False | Some x \<Rightarrow> x \<noteq> [])"

text \<open>
  \<open>s.split(sep)\<close> for a separator that is not empty: \<open>cur\<close> is the piece read so far.
\<close>

function split_from :: "string \<Rightarrow> string \<Rightarrow> string \<Rightarrow> string list" where
  "split_from sep cur [] = [cur]"
| "split_from sep cur (c # cs) =
     (if sep \<noteq> [] \<and> prefix sep (c # cs)
      then cur # split_from sep [] (drop (length sep) (c # cs))
      else split_from sep (cur @ [c]) cs)"
  by pat_completeness auto
termination
  by (relation "measure (\<lambda>(sep, cur, s). length s)") auto

definition split_str :: "string \<Rightarrow> string \<Rightarrow> string list" where
  "split_str s sep = split_from sep [] s"

text \<open>Step 0 of the handler, for a photo that is a string.\<close>

definition sanitize :: "string \<Rightarrow> string" where
  "sanitize url =
     (if url \<noteq> [] then
        (let parts = split_str url ''base64,''
         in if length parts > 2 then ''data:image/jpeg;base64,'' @ last parts
            else url)
      else url)"

text \<open>
  Step 2, the geofence: \<open>None\<close> when the request goes on, the response when it is turned
  away. The hostel is the one selected in the request, else the user's own. With a name
  that is only found on \<open>Object.prototype\<close> the config is truthy but has no radius, center
  or points: \<open>isPointInPolygon\<close> reads the length of \<open>undefined\<close>, throws, and the outer
  \<open>catch\<close> answers 500.
\<close>

definition geofenceCheck :: "env \<Rightarrow> IUser \<Rightarrow> request \<Rightarrow> response option" where
  "geofenceCheck e user req =
     (let hostelToValidate =
            (case body_selectedHostel req of
               None \<Rightarrow> hostelBlock user
             | Some h \<Rightarrow> if h \<noteq> [] then h else hostelBlock user);
          located = (body_latitude req \<noteq> CoordMissing \<and> body_longitude req \<noteq> CoordMissing \<and>
                     body_latitude req \<noteq> CoordWeb)
      in case lookupHostel (hostels e) hostelToValidate of
           Undefined \<Rightarrow> None
         | Inherited \<Rightarrow> if located then Some ServerError else None
         | Own hostelConfig \<Rightarrow>
             if located
             then (if isInside (js (math e)) hostelConfig (parseFloat (body_latitude req))
                                                         (parseFloat (body_longitude req))
                   then None
                   else Some (OutsideBoundaries hostelToValidate))
             else None)"

definition MATCH_THRESHOLD :: real where
  "MATCH_THRESHOLD = 50"

text \<open>
  The number that \<open>x.toFixed(1)\<close> prints: the nearest multiple of one tenth, a tie going
  away from zero.
\<close>

definition toFixed1 :: "real \<Rightarrow> real" where
  "toFixed1 x =
     (if x < 0 then - (real_of_int (round (- x * 10)) / 10)
      else real_of_int (round (x * 10)) / 10)"

text \<open>
  Step 3, face verification, with the calls it makes. The inner \<open>try\<close> turns an error of
  \<open>getFaceEmbedding\<close> into a 400 with its message; the outer one turns any other error
  into the 500 of the face verification service.
\<close>

definition faceVerification :: "env \<Rightarrow> IUser \<Rightarrow> request \<Rightarrow> response option \<times> call list" where
  "faceVerification e user req =
     (if body_isPresent req = Some True \<and> truthy (body_photoUrl req) then
        (case faceEmbedding user of
           None \<Rightarrow> (Some FaceIdNotRegistered, [])
         | Some stored \<Rightarrow>
             if length stored = 0 then (Some FaceIdNotRegistered, [])
             else
               (let sanitizedPhotoUrl = sanitize (the (body_photoUrl req))
                in case getFaceEmbedding e sanitizedPhotoUrl of
                     Thrown message \<Rightarrow>
                       (Some (FaceError message), [CallGetFaceEmbedding sanitizedPhotoUrl])
                   | Returned currentEmbedding \<Rightarrow>
                       (let calls = [CallGetFaceEmbedding sanitizedPhotoUrl,
                                     CallCalculateSimilarity stored currentEmbedding]
                        in case calculateSimilarity e stored currentEmbedding of
                             Thrown message \<Rightarrow> (Some FaceServiceError, calls)
                           | Returned similarity \<Rightarrow>
                               if similarity < MATCH_THRESHOLD
                               then (Some (FaceMismatch (toFixed1 similarity)), calls)
                               else (None, calls))))
      else (None, []))"

text \<open>
  The document built by \<open>new Attendance({...})\<close>: \<open>isPresent\<close> defaults to true when the
  body has none.
\<close>

definition newAttendance :: "request \<Rightarrow> IAttendance" where
  "newAttendance req =
     \<lparr> userId = body_userId req,
       date = body_date req,
       isPresent = (case body_isPresent req of None \<Rightarrow> True | Some b \<Rightarrow> b),
       photoUrl = map_option sanitize (body_photoUrl req),
       latitudeStr = body_latitude req,
       longitudeStr = body_longitude req,
       reason = body_reason req \<rparr>"

text \<open>
  The handler up to, and without, \<open>attendance.save()\<close>: the response it has sent, or the
  document it is about to save. The ledger is read once, by \<open>findOne\<close>.
\<close>

definition preCommit ::
  "env \<Rightarrow> (dbcall \<Rightarrow> bool) \<Rightarrow> request \<Rightarrow> IAttendance list \<Rightarrow> (response + IAttendance) \<times> call list" where
  "preCommit e faults req ledger =
     (let uid = body_userId req in
      if faults FindUser then (Inl ServerError, [CallFindById uid])
      else case users e uid of
        None \<Rightarrow> (Inl UserNotFound, [CallFindById uid])
      | Some user \<Rightarrow>
          (let startOfDay = setHours_0_0_0_0 (tzOffset e) (body_date req);
               endOfDay = setHours_23_59_59_999 (tzOffset e) (body_date req);
               calls = [CallFindById uid, CallFindOne uid]
           in if faults FindAttendance then (Inl ServerError, calls)
              else case findOne uid startOfDay endOfDay ledger of
                Some existingAttendance \<Rightarrow> (Inl AlreadyMarked, calls)
              | None \<Rightarrow>
                  (case geofenceCheck e user req of
                     Some resp \<Rightarrow> (Inl resp, calls)
                   | None \<Rightarrow>
                       (case faceVerification e user req of
                          (Some resp, fcalls) \<Rightarrow> (Inl resp, calls @ fcalls)
                        | (None, fcalls) \<Rightarrow> (Inr (newAttendance req), calls @ fcalls)))))"

text \<open>\<open>await attendance.save()\<close> and the 201, or the 500 of the outer \<open>catch\<close>.\<close>

definition commit ::
  "(dbcall \<Rightarrow> bool) \<Rightarrow> IAttendance \<Rightarrow> IAttendance list \<Rightarrow> response \<times> IAttendance list" where
  "commit faults attendance ledger =
     (if faults SaveAttendance then (ServerError, ledger)
      else (Created attendance, ledger @ [attendance]))"

text \<open>\<open>router.post('/')\<close>: the response, the calls made, and the ledger afterwards.\<close>

definition post ::
  "env \<Rightarrow> (dbcall \<Rightarrow> bool) \<Rightarrow> request \<Rightarrow> IAttendance list \<Rightarrow>
     response \<times> call list \<times> IAttendance list" where
  "post e faults req ledger =
     (case preCommit e faults req ledger of
        (Inl resp, calls) \<Rightarrow> (resp, calls, ledger)
      | (Inr attendance, calls) \<Rightarrow>
          (case commit faults attendance ledger of
             (resp, ledger') \<Rightarrow> (resp, calls @ [CallSave], ledger')))"

text \<open>Requests handled one at a time, each with its own storage faults.\<close>

fun postAll ::
  "env \<Rightarrow> ((dbcall \<Rightarrow> bool) \<times> request) list \<Rightarrow> IAttendance list \<Rightarrow>
     response list \<times> IAttendance list" where
  "postAll e [] ledger = ([], ledger)"
| "postAll e ((faults, req) # rest) ledger =
     (case post e faults req ledger of
        (resp, calls, ledger') \<Rightarrow>
          (case postAll e rest ledger' of
             (resps, ledger'') \<Rightarrow> (resp # resps, ledger'')))"

subsection \<open>Requests in flight together\<close>

text \<open>
  The handler is an \<open>async\<close> function: between its \<open>await\<close>s other requests run. For the
  ledger two moments matter, the read by \<open>findOne\<close> and the write by \<open>save\<close>. A request in
  flight is waiting to start, or has passed every check and is waiting for its \<open>save\<close>, or
  has been answered.
\<close>

datatype task =
    Pending "dbcall \<Rightarrow> bool" request
  | Saving "dbcall \<Rightarrow> bool" IAttendance
  | Answered response

fun advance :: "env \<Rightarrow> task \<Rightarrow> IAttendance list \<Rightarrow> task \<times> IAttendance list" where
  "advance e (Pending faults req) ledger =
     (case preCommit e faults req ledger of
        (Inl resp, calls) \<Rightarrow> (Answered resp, ledger)
      | (Inr attendance, calls) \<Rightarrow> (Saving faults attendance, ledger))"
| "advance e (Saving faults attendance) ledger =
     (case commit faults attendance ledger of
        (resp, ledger') \<Rightarrow> (Answered resp, ledger'))"
| "advance e (Answered resp) ledger = (Answered resp, ledger)"

text \<open>A schedule names, step by step, the request that moves next.\<close>

fun run :: "env \<Rightarrow> nat list \<Rightarrow> task list \<times> IAttendance list \<Rightarrow> task list \<times> IAttendance list" where
  "run e [] s = s"
| "run e (i # sched) (tasks, ledger) =
     (if i < length tasks
      then (case advance e (tasks ! i) ledger of
              (t, ledger') \<Rightarrow> run e sched (tasks[i := t], ledger'))
      else run e sched (tasks, ledger))"

section \<open>Notions used in the proofs\<close>

text \<open>
  The parity of the number of crossing edges along a path of vertices that starts after
  \<open>vj\<close>, for a crossing test \<open>c\<close>; both polygon loops compute it.
\<close>

fun walk :: "('v \<Rightarrow> 'v \<Rightarrow> bool) \<Rightarrow> 'v \<Rightarrow> 'v list \<Rightarrow> bool" where
  "walk c vj [] = False"
| "walk c vj (vi # rest) = (c vi vj \<noteq> walk c vi rest)"

text \<open>Whether a vertex lies strictly north-east of the query point.\<close>

definition quadrant :: "real \<Rightarrow> real \<Rightarrow> real LatLng \<Rightarrow> bool" where
  "quadrant lat lon v = (latitude v > lat \<and> longitude v > lon)"

text \<open>
  The uniqueness invariant of the ledger: the records marked present have pairwise
  different keys (subject, local calendar day).
\<close>

definition onePresentPerDay :: "int \<Rightarrow> IAttendance list \<Rightarrow> bool" where
  "onePresentPerDay tz ledger =
     distinct (map (\<lambda>a. (userId a, localDay tz (date a))) (filter isPresent ledger))"

subsection \<open>Example inputs\<close>

text \<open>
  A platform for the examples. At the arguments that the antipode example meets, sine and
  cosine have the values that V8's \<open>ieee754\<close> library (a port of fdlibm) computes there:
  \<open>sin(-0.13962634015954636) = -0.13917310096006544\<close>,
  \<open>cos(\<plusminus>0.13962634015954636) = 0.9902680687415704\<close> and
  \<open>sin(1.5707963267948966) = 1\<close>. Everywhere else the platform is taken to round
  correctly.
\<close>

fun ideal_atan2 :: "double \<Rightarrow> double \<Rightarrow> double" where
  "ideal_atan2 (Finite y) (Finite x) = rnd (atan2 y x)"
| "ideal_atan2 (Finite y) PosInf = Finite 0"
| "ideal_atan2 (Finite y) NegInf = rnd (if 0 \<le> y then pi else - pi)"
| "ideal_atan2 PosInf (Finite x) = rnd (pi / 2)"
| "ideal_atan2 NegInf (Finite x) = rnd (- (pi / 2))"
| "ideal_atan2 PosInf PosInf = rnd (pi / 4)"
| "ideal_atan2 PosInf NegInf = rnd (3 * pi / 4)"
| "ideal_atan2 NegInf PosInf = rnd (- (pi / 4))"
| "ideal_atan2 NegInf NegInf = rnd (- (3 * pi / 4))"
| "ideal_atan2 y x = NaN"

definition demo_math :: platform where
  "demo_math =
     \<lparr> psin = (\<lambda>v. if v = - (5030569068109113 / 36028797018963968)
                     then Finite (- (5014239404989977 / 36028797018963968))
                     else if v = 884279719003555 / 562949953421312 then Finite 1
                     else rnd (sin v)),
       pcos = (\<lambda>v. if \<bar>v\<bar> = 5030569068109113 / 36028797018963968
                     then Finite (4459770905381437 / 4503599627370496)
                     else rnd (cos v)),
       patan2 = ideal_atan2 \<rparr>"

text \<open>
  A server five and a half hours east of UTC, one enrolled user and one who is not, the
  repository's table of hostels, and a face service that answers with a fixed embedding.
\<close>

definition demo_users :: "userId \<Rightarrow> IUser option" where
  "demo_users =
     map_of
       [(''u1'', \<lparr> hostelBlock = ''Valluvar Mens Hostel'', faceEmbedding = Some [1, 0] \<rparr>),
        (''u2'', \<lparr> hostelBlock = ''Valluvar Mens Hostel'', faceEmbedding = None \<rparr>)]"

definition demo_env :: env where
  "demo_env =
     \<lparr> tzOffset = 19800000,
       math = demo_math,
       users = demo_users,
       hostels = HOSTEL_LOCATIONS,
       getFaceEmbedding = (\<lambda>url. Returned [1, 0]),
       calculateSimilarity = (\<lambda>a b. Returned (if a = b then 100 else 0)) \<rparr>"

definition no_faults :: "dbcall \<Rightarrow> bool" where
  "no_faults = (\<lambda>c. False)"

text \<open>
  A check-in of \<open>u1\<close> at 2025-11-03T06:00:00Z with a photo, taken at the center of the
  hostel's boundary.
\<close>

definition demo_request :: request where
  "demo_request =
     \<lparr> body_userId = ''u1'',
       body_date = 1762149600000,
       body_isPresent = Some True,
       body_photoUrl = Some ''data:image/jpeg;base64,AAAA'',
       body_latitude = CoordNum (rnd 11.63264),
       body_longitude = CoordNum (rnd 78.1320192),
       body_reason = None,
       body_selectedHostel = Some ''TEST - My Location'' \<rparr>"

text \<open>The same check-in by \<open>u2\<close>, who has no face embedding.\<close>

definition demo_request_u2 :: request where
  "demo_request_u2 = demo_request \<lparr> body_userId := ''u2'' \<rparr>"

section \<open>Rounding to the nearest double\<close>

text \<open>
  \<open>rnd\<close> at a number whose scaled absolute value \<open>\<bar>x\<bar> * 2 ^ k\<close> lies between \<open>2 ^ 52\<close> and \<open>2 ^ 53\<close>
  is the nearest integer \<open>m\<close>, scaled back (lemma \<open>rnd_scaled\<close>); the roundings of the
  examples are computed with it.
\<close>

lemma pow2_less_cancel: "(2::real) powi m < 2 powi n \<Longrightarrow> m < n"
proof (rule ccontr)
  assume a: "(2::real) powi m < 2 powi n" and "\<not> m < n"
  then have "n \<le> m" by simp
  then have "(2::real) powi n \<le> 2 powi m" by (intro power_int_increasing) simp_all
  with a show False by simp
qed

lemma pow2_double: "(2::real) powi (e + 1) = 2 * 2 powi e"
  by (simp add: power_int_add)

lemma pow2_half: "(2::real) powi (e - 1) = 2 powi e / 2"
  by (simp add: power_int_diff)

lemma ilog2_correct:
  "0 < a \<Longrightarrow> 2 powi e \<le> a \<Longrightarrow> a < 2 powi (e + 1) \<Longrightarrow> nat \<bar>e\<bar> \<le> n \<Longrightarrow> ilog2 n a = e"
proof (induction n arbitrary: a e)
  case 0
  then show ?case by simp
next
  case (Suc n)
  show ?case
  proof (cases "2 \<le> a")
    case True
    have "(2::real) powi 1 < 2 powi (e + 1)" using True Suc.prems(3) by simp
    then have e1: "1 \<le> e" using pow2_less_cancel[of 1 "e + 1"] by simp
    have h: "a / 2 < 2 powi (e - 1 + 1)" "2 powi (e - 1) \<le> a / 2"
      using Suc.prems(2,3) by (simp_all add: pow2_double pow2_half)
    have "ilog2 n (a / 2) = e - 1"
      using Suc.IH[of "a / 2" "e - 1"] h Suc.prems(1,4) e1 by simp
    then show ?thesis using True by simp
  next
    case False
    show ?thesis
    proof (cases "a < 1")
      case True
      have "(2::real) powi e < 2 powi 0" using True Suc.prems(2) by simp
      then have e1: "e \<le> - 1" using pow2_less_cancel[of e 0] by simp
      have "(2::real) powi (e + 1 + 1) = 2 * (2 * 2 powi e)"
        unfolding pow2_double[of "e + 1"] pow2_double[of e] ..
      then have h: "a * 2 < 2 powi (e + 1 + 1)" "2 powi (e + 1) \<le> a * 2"
        using Suc.prems(2,3) by (simp_all add: pow2_double[of e])
      have "ilog2 n (a * 2) = e + 1"
        using Suc.IH[of "a * 2" "e + 1"] h Suc.prems(1,4) e1 by simp
      then show ?thesis using True False by simp
    next
      case F2: False
      have "(2::real) powi e < 2 powi 1" using False Suc.prems(2) by simp
      then have "e < 1" using pow2_less_cancel[of e 1] by simp
      moreover have "(2::real) powi 0 < 2 powi (e + 1)" using F2 Suc.prems(3) by simp
      then have "0 < e + 1" using pow2_less_cancel[of 0 "e + 1"] by simp
      ultimately have "e = 0" by simp
      then show ?thesis using False F2 by simp
    qed
  qed
qed

lemma rne_near:
  assumes "\<bar>x - of_int m\<bar> < 1 / 2"
  shows "rne x = m"
proof -
  have "\<lfloor>x\<rfloor> = m \<or> \<lfloor>x\<rfloor> = m - 1" using assms by linarith
  then show ?thesis
  proof
    assume f: "\<lfloor>x\<rfloor> = m"
    have "x - of_int m < 1 / 2" using assms by linarith
    then show ?thesis unfolding rne_def Let_def f by simp
  next
    assume f: "\<lfloor>x\<rfloor> = m - 1"
    have "x < of_int m" using f by linarith
    then have d: "1 / 2 < x - of_int (m - 1)" using assms by simp
    then have "\<not> x - of_int (m - 1) < 1 / 2" by linarith
    then show ?thesis unfolding rne_def Let_def f using d by simp
  qed
qed

lemma rnd_scaled:
  assumes lo: "2 ^ 52 \<le> \<bar>x\<bar> * 2 ^ k" and hi: "\<bar>x\<bar> * 2 ^ k < 2 ^ 53" and k: "k \<le> 1074"
    and m: "\<bar>\<bar>x\<bar> * 2 ^ k - of_int m\<bar> < 1 / 2"
  shows "rnd x = Finite ((if x < 0 then - 1 else 1) * of_int m / 2 ^ k)"
proof -
  define a where "a = \<bar>x\<bar>"
  define e :: int where "e = 52 - int k"
  have pk: "(2::real) powi (- int k) = 1 / 2 ^ k"
    by (simp add: power_int_minus field_simps)
  have pe: "(2::real) powi e = 2 ^ 52 / 2 ^ k"
    unfolding e_def by (simp add: power_int_diff)
  have pe1: "(2::real) powi (e + 1) = 2 ^ 53 / 2 ^ k"
    unfolding pow2_double pe by simp
  have kpos: "(0::real) < 2 ^ k" by simp
  have a_lo: "2 powi e \<le> a" unfolding pe a_def using lo kpos by (simp add: field_simps)
  have a_hi: "a < 2 powi (e + 1)" unfolding pe1 a_def using hi kpos by (simp add: field_simps)
  have apos: "0 < a" using a_lo zero_less_power_int[of "2::real" e] by linarith
  have el: "- 1022 \<le> e" "e \<le> 52" using k by (simp_all add: e_def)
  have il: "ilog2 1100 a = e"
    using ilog2_correct[OF apos a_lo a_hi, of 1100] el by simp
  have q: "max (ilog2 1100 a) (- 1022) - 52 = - int k"
    using il el by (simp add: e_def)
  have sc: "a / 2 powi (- int k) = a * 2 ^ k" unfolding pk by simp
  have "rne (a * 2 ^ k) = m"
    unfolding a_def using m by (rule rne_near)
  then have r: "rne (a / 2 powi (- int k)) = m"
    by (simp only: sc)
  have "(2::real) powi e \<le> 2 powi 52" using el by (intro power_int_increasing) simp_all
  have a1024: "a < 2 ^ 1024"
  proof -
    have "(2::real) powi (e + 1) \<le> 2 powi 1024" using el by (intro power_int_increasing) simp_all
    then show ?thesis using a_hi by simp
  qed
  have atiny: "\<not> a < 2 powi (- 1075)"
  proof -
    have "(2::real) powi (- 1075) \<le> 2 powi e" using el by (intro power_int_increasing) simp_all
    then show ?thesis using a_lo by linarith
  qed
  have mb: "of_int m < (2::real) ^ 53 + 1" using m hi by linarith
  have mpos: "(0::real) \<le> of_int m"
  proof -
    define z where "z = \<bar>x\<bar> * 2 ^ k"
    have "(1::real) \<le> 2 ^ 52" by simp
    then have "1 \<le> z" using lo unfolding z_def by linarith
    moreover have "\<bar>z - of_int m\<bar> < 1 / 2" using m unfolding z_def .
    ultimately show ?thesis by linarith
  qed
  have y: "of_int m * 2 powi (- int k) < (2::real) ^ 1024"
  proof -
    have "of_int m / 2 ^ k \<le> (of_int m :: real) / 1"
      using mpos by (intro divide_left_mono) simp_all
    then have "of_int m * 2 powi (- int k) \<le> (of_int m :: real)"
      unfolding pk by simp
    also have "\<dots> < 2 ^ 53 + 1" using mb .
    also have "\<dots> < (2::real) ^ 1024" by simp
    finally show ?thesis .
  qed
  have x0: "x \<noteq> 0" using apos a_def by auto
  show ?thesis
    unfolding rnd_def Let_def a_def[symmetric] q r
    using a1024 atiny y x0 by (simp add: pk)
qed

lemma rnd_0: "rnd 0 = Finite 0"
  by (simp add: rnd_def Let_def)

lemma ilog2_upper: "a < 2 ^ Suc k \<Longrightarrow> ilog2 n a \<le> int k"
proof (induction n arbitrary: a k)
  case 0
  then show ?case by simp
next
  case (Suc n)
  show ?case
  proof (cases "2 \<le> a")
    case True
    have "k \<noteq> 0" using True Suc.prems by (cases k) auto
    then obtain k' where k: "k = Suc k'" by (cases k) auto
    have "a / 2 < 2 ^ Suc k'" using Suc.prems unfolding k by simp
    from Suc.IH[OF this] show ?thesis using True k by simp
  next
    case False
    show ?thesis
    proof (cases "a < 1")
      case True
      have p: "(1::real) \<le> 2 ^ k" by simp
      have "(2::real) ^ Suc (Suc k) = 4 * 2 ^ k" by simp
      then have "(2::real) \<le> 2 ^ Suc (Suc k)" using p by linarith
      then have "a * 2 < 2 ^ Suc (Suc k)" using True by linarith
      from Suc.IH[OF this] show ?thesis using True False by simp
    next
      case F: False
      then show ?thesis using False by simp
    qed
  qed
qed

lemma rne_bounds: "0 \<le> z \<Longrightarrow> 0 \<le> rne z \<and> real_of_int (rne z) \<le> z + 1"
proof -
  assume z: "0 \<le> z"
  have f: "0 \<le> \<lfloor>z\<rfloor>" using z by simp
  have l: "real_of_int \<lfloor>z\<rfloor> \<le> z" by (rule of_int_floor_le)
  have "rne z = \<lfloor>z\<rfloor> \<or> rne z = \<lfloor>z\<rfloor> + 1" by (simp add: rne_def Let_def)
  then show ?thesis
  proof
    assume e: "rne z = \<lfloor>z\<rfloor>"
    have "real_of_int \<lfloor>z\<rfloor> \<le> z + 1" using l by linarith
    then show ?thesis unfolding e using f by simp
  next
    assume e: "rne z = \<lfloor>z\<rfloor> + 1"
    have "real_of_int (\<lfloor>z\<rfloor> + 1) \<le> z + 1" using l by simp
    then show ?thesis unfolding e using f by simp
  qed
qed

lemma rnd_bounded:
  assumes "\<bar>x\<bar> < 2 ^ 53"
  shows "\<exists>y. rnd x = Finite y \<and> \<bar>y\<bar> \<le> \<bar>x\<bar> + 1"
proof -
  define a where "a = \<bar>x\<bar>"
  define q where "q = max (ilog2 1100 a) (- 1022) - 52"
  define s :: real where "s = 2 powi q"
  define r where "r = rne (a / s)"
  have a0: "0 \<le> a" by (simp add: a_def)
  have a53: "a < 2 ^ Suc 52" using assms by (simp add: a_def)
  have "ilog2 1100 a \<le> 52" using ilog2_upper[OF a53, of 1100] by simp
  then have q0: "q \<le> 0" by (simp add: q_def)
  have spos: "0 < s" by (simp add: s_def)
  have "s \<le> 2 powi 0" unfolding s_def using q0 by (intro power_int_increasing) simp_all
  then have s1: "s \<le> 1" by simp
  have rb: "0 \<le> r" "real_of_int r \<le> a / s + 1"
    using rne_bounds[of "a / s"] a0 spos by (simp_all add: r_def)
  have "real_of_int r * s \<le> (a / s + 1) * s"
    using rb(2) spos by (intro mult_right_mono) simp_all
  also have "\<dots> = a + s" using spos by (simp add: field_simps)
  finally have y1: "real_of_int r * s \<le> a + 1" using s1 by linarith
  have y0: "0 \<le> real_of_int r * s" using rb(1) spos by simp
  have big: "(2::real) ^ 53 + 1 < 2 ^ 1024" by simp
  have a1024: "\<not> 2 ^ 1024 \<le> a" using a53 big by simp
  have y1024: "\<not> 2 ^ 1024 \<le> real_of_int r * s" using y1 a53 big by simp
  show ?thesis
  proof (cases "a < 2 powi (- 1075)")
    case True
    then show ?thesis using a1024 a0 by (simp add: rnd_def Let_def a_def[symmetric])
  next
    case False
    have "rnd x = Finite (if x < 0 then - (real_of_int r * s) else real_of_int r * s)"
      unfolding rnd_def Let_def a_def[symmetric] q_def[symmetric] s_def[symmetric] r_def[symmetric]
      using a1024 False y1024 by simp
    then show ?thesis using y0 y1 by (auto simp: a_def)
  qed
qed

section \<open>Crossing parity of the two polygon tests\<close>

lemma less_div_iff:
  fixes l n d x :: real
  assumes "d \<noteq> 0"
  shows "(l < n / d + x) = (if 0 < d then (l - x) * d < n else n < (l - x) * d)"
proof (cases "0 < d")
  case True
  have "(l < n / d + x) = (l - x < n / d)" by auto
  also have "\<dots> = ((l - x) * d < n)" using True by (simp add: pos_less_divide_eq)
  finally show ?thesis using True by simp
next
  case False
  with assms have neg: "d < 0" by simp
  have "(l < n / d + x) = (l - x < n / d)" by auto
  also have "\<dots> = (n < (l - x) * d)" using neg by (simp add: neg_less_divide_eq)
  finally show ?thesis using False by simp
qed

lemma crossX:
  fixes xa ya xb yb :: real
  assumes "(ya > 0) \<noteq> (yb > 0)"
  shows "(0 < ((xb - xa) * (0 - ya)) / (yb - ya) + xa) =
         (if yb < ya then xa * yb < xb * ya else xb * ya < xa * yb)"
proof -
  have d: "yb - ya \<noteq> 0" using assms by auto
  have e1: "(0 - xa) * (yb - ya) = xa * ya - xa * yb" by (simp add: algebra_simps)
  have e2: "(xb - xa) * (0 - ya) = xa * ya - xb * ya" by (simp add: algebra_simps)
  have "(0 < ((xb - xa) * (0 - ya)) / (yb - ya) + xa) =
        (if 0 < yb - ya then xa * ya - xa * yb < xa * ya - xb * ya
         else xa * ya - xb * ya < xa * ya - xa * yb)"
    using less_div_iff[OF d, of 0 "(xb - xa) * (0 - ya)" xa] by (simp only: e1 e2)
  also have "\<dots> = (if yb < ya then xa * yb < xb * ya else xb * ya < xa * yb)"
  proof (cases "yb < ya")
    case True then show ?thesis by simp
  next
    case False
    with d have "ya < yb" by simp
    then show ?thesis by simp
  qed
  finally show ?thesis .
qed

lemma prod_signs:
  fixes x y :: real
  shows "0 < x \<Longrightarrow> 0 < y \<Longrightarrow> 0 < x * y"
    and "0 < x \<Longrightarrow> y \<le> 0 \<Longrightarrow> x * y \<le> 0"
    and "x \<le> 0 \<Longrightarrow> 0 < y \<Longrightarrow> x * y \<le> 0"
    and "x \<le> 0 \<Longrightarrow> y \<le> 0 \<Longrightarrow> 0 \<le> x * y"
  by (simp_all add: mult_nonneg_nonpos mult_nonpos_nonneg mult_nonpos_nonpos)

lemma edge_core:
  fixes xa ya xb yb :: real
  assumes off: "\<not> (xa * yb = xb * ya \<and> min xa xb \<le> 0 \<and> 0 \<le> max xa xb \<and> min ya yb \<le> 0 \<and> 0 \<le> max ya yb)"
  shows "((((ya > 0) \<noteq> (yb > 0)) \<and> (if yb < ya then xa * yb < xb * ya else xb * ya < xa * yb))
          \<noteq> (((xa > 0) \<noteq> (xb > 0)) \<and> (if xb < xa then xb * ya < xa * yb else xa * yb < xb * ya)))
         = ((xa > 0 \<and> ya > 0) \<noteq> (xb > 0 \<and> yb > 0))"
proof -
  consider (pp) "0 < xa" "0 < xb" | (pn) "0 < xa" "xb \<le> 0" | (np) "xa \<le> 0" "0 < xb" | (nn) "xa \<le> 0" "xb \<le> 0"
    by linarith
  then show ?thesis
  proof cases
    case pp
    consider (a) "0 < ya" "0 < yb" | (b) "0 < ya" "yb \<le> 0" | (c) "ya \<le> 0" "0 < yb" | (d) "ya \<le> 0" "yb \<le> 0"
      by linarith
    then show ?thesis
    proof cases
      case a then show ?thesis using pp by simp
    next
      case b
      have s: "xa * yb \<le> 0" "0 < xb * ya" using pp b by (simp_all add: prod_signs)
      have "xa * yb < xb * ya" using s by linarith
      then show ?thesis using pp b by auto
    next
      case c
      have s: "0 < xa * yb" "xb * ya \<le> 0" using pp c by (simp_all add: prod_signs)
      have "xb * ya < xa * yb" using s by linarith
      then show ?thesis using pp c by auto
    next
      case d then show ?thesis using pp by auto
    qed
  next
    case pn
    consider (a) "0 < ya" "0 < yb" | (b) "0 < ya" "yb \<le> 0" | (c) "ya \<le> 0" "0 < yb" | (d) "ya \<le> 0" "yb \<le> 0"
      by linarith
    then show ?thesis
    proof cases
      case a
      have s: "0 < xa * yb" "xb * ya \<le> 0" using pn a by (simp_all add: prod_signs)
      have "xb * ya < xa * yb" using s by linarith
      then show ?thesis using pn a by auto
    next
      case b
      have "xa * yb \<noteq> xb * ya" using off pn b by auto
      then show ?thesis using pn b by auto
    next
      case c
      then show ?thesis using pn by auto
    next
      case d
      have s: "xa * yb \<le> 0" "0 \<le> xb * ya" using pn d by (simp_all add: prod_signs)
      have "xa * yb \<le> xb * ya" using s by linarith
      then show ?thesis using pn d by auto
    qed
  next
    case np
    consider (a) "0 < ya" "0 < yb" | (b) "0 < ya" "yb \<le> 0" | (c) "ya \<le> 0" "0 < yb" | (d) "ya \<le> 0" "yb \<le> 0"
      by linarith
    then show ?thesis
    proof cases
      case a
      have s: "xa * yb \<le> 0" "0 < xb * ya" using np a by (simp_all add: prod_signs)
      have "xa * yb < xb * ya" using s by linarith
      then show ?thesis using np a by auto
    next
      case b
      then show ?thesis using np by auto
    next
      case c
      have "xa * yb \<noteq> xb * ya" using off np c by auto
      then show ?thesis using np c by auto
    next
      case d
      have s: "0 \<le> xa * yb" "xb * ya \<le> 0" using np d by (simp_all add: prod_signs)
      have "xb * ya \<le> xa * yb" using s by linarith
      then show ?thesis using np d by auto
    qed
  next
    case nn
    consider (a) "0 < ya" "0 < yb" | (b) "0 < ya" "yb \<le> 0" | (c) "ya \<le> 0" "0 < yb" | (d) "ya \<le> 0" "yb \<le> 0"
      by linarith
    then show ?thesis
    proof cases
      case a then show ?thesis using nn by auto
    next
      case b
      have s: "0 \<le> xa * yb" "xb * ya \<le> 0" using nn b by (simp_all add: prod_signs)
      have "xb * ya \<le> xa * yb" using s by linarith
      then show ?thesis using nn b by auto
    next
      case c
      have s: "xa * yb \<le> 0" "0 \<le> xb * ya" using nn c by (simp_all add: prod_signs)
      have "xa * yb \<le> xb * ya" using s by linarith
      then show ?thesis using nn c by auto
    next
      case d then show ?thesis using nn by auto
    qed
  qed
qed

lemma intersect_client_origin:
  "intersect_client exact lat lon a b =
     (((latitude a - lat > 0) \<noteq> (latitude b - lat > 0)) \<and>
      0 < (((longitude b - lon) - (longitude a - lon)) * (0 - (latitude a - lat))) /
            ((latitude b - lat) - (latitude a - lat)) + (longitude a - lon))"
  by (auto simp: intersect_client_def exact_def a_gt_def Let_def)

lemma intersect_origin:
  "intersect exact lat lon a b =
     (((longitude a - lon > 0) \<noteq> (longitude b - lon > 0)) \<and>
      0 < (((latitude b - lat) - (latitude a - lat)) * (0 - (longitude a - lon))) /
            ((longitude b - lon) - (longitude a - lon)) + (latitude a - lat))"
  by (auto simp: intersect_def exact_def a_gt_def Let_def)

lemma onSegment_origin:
  "onSegment lat lon a b =
     ((longitude a - lon) * (latitude b - lat) = (longitude b - lon) * (latitude a - lat) \<and>
      min (longitude a - lon) (longitude b - lon) \<le> 0 \<and>
      0 \<le> max (longitude a - lon) (longitude b - lon) \<and>
      min (latitude a - lat) (latitude b - lat) \<le> 0 \<and>
      0 \<le> max (latitude a - lat) (latitude b - lat))"
proof -
  have "((latitude b - latitude a) * (lon - longitude a) =
          (longitude b - longitude a) * (lat - latitude a)) =
        ((longitude a - lon) * (latitude b - lat) = (longitude b - lon) * (latitude a - lat))"
    by (auto simp: algebra_simps)
  then show ?thesis
    unfolding onSegment_def by (auto simp: min_def max_def)
qed

lemma edge_parity:
  assumes "\<not> onSegment lat lon a b"
  shows "(intersect_client exact lat lon a b \<noteq> intersect exact lat lon a b) =
         (quadrant lat lon a \<noteq> quadrant lat lon b)"
proof -
  define xa where "xa = longitude a - lon"
  define ya where "ya = latitude a - lat"
  define xb where "xb = longitude b - lon"
  define yb where "yb = latitude b - lat"
  have off: "\<not> (xa * yb = xb * ya \<and> min xa xb \<le> 0 \<and> 0 \<le> max xa xb \<and>
                min ya yb \<le> 0 \<and> 0 \<le> max ya yb)"
    using assms unfolding onSegment_origin xa_def ya_def xb_def yb_def by blast
  have c: "intersect_client exact lat lon a b =
           (((ya > 0) \<noteq> (yb > 0)) \<and> (if yb < ya then xa * yb < xb * ya else xb * ya < xa * yb))"
    unfolding intersect_client_origin xa_def[symmetric] ya_def[symmetric]
      xb_def[symmetric] yb_def[symmetric]
    using crossX[of ya yb xb xa] by blast
  have s: "intersect exact lat lon a b =
           (((xa > 0) \<noteq> (xb > 0)) \<and> (if xb < xa then xb * ya < xa * yb else xa * yb < xb * ya))"
    unfolding intersect_origin xa_def[symmetric] ya_def[symmetric]
      xb_def[symmetric] yb_def[symmetric]
    using crossX[of xa xb yb ya] by (auto simp: mult.commute)
  have q: "quadrant lat lon a = (xa > 0 \<and> ya > 0)" "quadrant lat lon b = (xb > 0 \<and> yb > 0)"
    unfolding quadrant_def xa_def ya_def xb_def yb_def by auto
  show ?thesis
    unfolding c s q using edge_core[OF off] by blast
qed

lemma pip_loop_walk:
  "pip_loop ar lat lon vj ps inside = (inside \<noteq> walk (intersect ar lat lon) vj ps)"
  by (induction ps arbitrary: vj inside) auto

lemma pip_loop_client_walk:
  "pip_loop_client ar lat lon vj ps inside =
     (inside \<noteq> walk (intersect_client ar lat lon) vj ps)"
  by (induction ps arbitrary: vj inside) auto

lemma isPointInPolygon_walk:
  "isPointInPolygon ar lat lon P = (P \<noteq> [] \<and> walk (intersect ar lat lon) (last P) P)"
  by (simp add: isPointInPolygon_def pip_loop_walk)

lemma isPointInPolygon_client_walk:
  "isPointInPolygon_client ar lat lon P =
     (P \<noteq> [] \<and> walk (intersect_client ar lat lon) (last P) P)"
  by (simp add: isPointInPolygon_client_def pip_loop_client_walk)

lemma walk_parity:
  assumes "\<not> list_ex (\<lambda>(a, b). onSegment lat lon a b) (zip ps (vj # butlast ps))"
  shows "(walk (intersect_client exact lat lon) vj ps \<noteq> walk (intersect exact lat lon) vj ps) =
         (quadrant lat lon vj \<noteq> quadrant lat lon (last (vj # ps)))"
  using assms
proof (induction ps arbitrary: vj)
  case Nil
  then show ?case by simp
next
  case (Cons vi rest)
  have off: "\<not> onSegment lat lon vi vj"
    using Cons.prems by simp
  have rest: "\<not> list_ex (\<lambda>(a, b). onSegment lat lon a b) (zip rest (vi # butlast rest))"
    using Cons.prems by (cases rest) auto
  have ih: "(walk (intersect_client exact lat lon) vi rest \<noteq> walk (intersect exact lat lon) vi rest) =
            (quadrant lat lon vi \<noteq> quadrant lat lon (last (vi # rest)))"
    using Cons.IH[OF rest] .
  have e: "(intersect_client exact lat lon vi vj \<noteq> intersect exact lat lon vi vj) =
           (quadrant lat lon vi \<noteq> quadrant lat lon vj)"
    using edge_parity[OF off] .
  have l: "last (vj # vi # rest) = last (vi # rest)" by simp
  show ?case
    unfolding walk.simps l using ih e by blast
qed

lemma walk_snoc: "walk c vj (ps @ [q]) = (walk c vj ps \<noteq> c q (last (vj # ps)))"
  by (induction ps arbitrary: vj) auto

lemma isPointInPolygon_rotate1:
  "isPointInPolygon ar lat lon (rotate1 P) = isPointInPolygon ar lat lon P"
proof (cases P)
  case Nil
  then show ?thesis by simp
next
  case (Cons x xs)
  have "walk (intersect ar lat lon) x (xs @ [x]) =
        (intersect ar lat lon x (last (x # xs)) \<noteq> walk (intersect ar lat lon) x xs)"
    by (auto simp: walk_snoc)
  then show ?thesis
    using Cons by (simp add: isPointInPolygon_walk)
qed

lemma exact_agree:
  assumes "\<not> onBoundary lat lon polygon"
  shows "isPointInPolygon_client exact lat lon polygon = isPointInPolygon exact lat lon polygon"
proof (cases "polygon = []")
  case True
  then show ?thesis by (simp add: isPointInPolygon_def isPointInPolygon_client_def)
next
  case False
  have "\<not> list_ex (\<lambda>(a, b). onSegment lat lon a b) (zip polygon (last polygon # butlast polygon))"
    using assms False by (simp add: onBoundary_def polygonEdges_def)
  from walk_parity[OF this]
  have "walk (intersect_client exact lat lon) (last polygon) polygon =
        walk (intersect exact lat lon) (last polygon) polygon"
    using False by simp
  then show ?thesis
    by (simp add: isPointInPolygon_walk isPointInPolygon_client_walk)
qed

lemma intersect_swap:
  "intersect ar lat lon vi vj = intersect_client ar lon lat (swapAxes vi) (swapAxes vj)"
  by (simp add: intersect_def intersect_client_def swapAxes_def Let_def)

lemma walk_swap:
  "walk (intersect ar lat lon) vj ps =
     walk (intersect_client ar lon lat) (swapAxes vj) (map swapAxes ps)"
  by (induction ps arbitrary: vj) (simp_all add: intersect_swap)

lemma server_is_swapped_client:
  "isPointInPolygon ar lat lon polygon =
     isPointInPolygon_client ar lon lat (map swapAxes polygon)"
  by (cases "polygon = []")
     (simp_all add: isPointInPolygon_walk isPointInPolygon_client_walk walk_swap last_map)

subsection \<open>The two tests in double arithmetic\<close>

lemma pip_rnd_1: "rnd (1) = Finite (1)"
  using rnd_scaled[of "1" 52 4503599627370496] by simp

lemma pip_rnd_2: "rnd (8) = Finite (8)"
  using rnd_scaled[of "8" 49 4503599627370496] by simp

lemma pip_rnd_3: "rnd (- 1) = Finite (- 1)"
  using rnd_scaled[of "- 1" 52 4503599627370496] by simp

lemma pip_rnd_4: "rnd (- 4) = Finite (- 4)"
  using rnd_scaled[of "- 4" 50 4503599627370496] by simp

lemma pip_rnd_5: "rnd (4) = Finite (4)"
  using rnd_scaled[of "4" 50 4503599627370496] by simp

lemma pip_rnd_6: "rnd (- 5) = Finite (- 5)"
  using rnd_scaled[of "- 5" 50 5629499534213120] by simp

lemma pip_rnd_7: "rnd (- (4 / 5)) = Finite (- (3602879701896397 / 4503599627370496))"
  using rnd_scaled[of "- (4 / 5)" 53 7205759403792794] by simp

lemma pip_rnd_8: "rnd (900719925474099 / 4503599627370496) = Finite (900719925474099 / 4503599627370496)"
  using rnd_scaled[of "900719925474099 / 4503599627370496" 55 7205759403792792] by simp

lemma pip_rnd_9: "rnd (- (28823037615171175 / 36028797018963968)) = Finite (- (3602879701896397 / 4503599627370496))"
  using rnd_scaled[of "- (28823037615171175 / 36028797018963968)" 53 7205759403792794] by simp

lemma pip_rnd_10: "rnd (18014398509481985 / 4503599627370496) = Finite (4)"
  using rnd_scaled[of "18014398509481985 / 4503599627370496" 50 4503599627370496] by simp

lemma pip_rnd_11: "rnd (- 3) = Finite (- 3)"
  using rnd_scaled[of "- 3" 51 6755399441055744] by simp

lemma pip_rnd_12: "rnd (7205759403792793 / 36028797018963968) = Finite (7205759403792793 / 36028797018963968)"
  using rnd_scaled[of "7205759403792793 / 36028797018963968" 55 7205759403792793] by simp

lemma pip_rnd_13: "rnd (- (21617278211378379 / 36028797018963968)) = Finite (- (5404319552844595 / 9007199254740992))"
  using rnd_scaled[of "- (21617278211378379 / 36028797018963968)" 53 5404319552844595] by simp

lemma pip_rnd_14: "rnd (- (5404319552844595 / 9007199254740992)) = Finite (- (5404319552844595 / 9007199254740992))"
  using rnd_scaled[of "- (5404319552844595 / 9007199254740992)" 53 5404319552844595] by simp

lemma pip_rnd_15: "rnd (66653274485083341 / 9007199254740992) = Finite (4165829655317709 / 562949953421312)"
  using rnd_scaled[of "66653274485083341 / 9007199254740992" 50 8331659310635418] by simp

lemmas pip_rnd = pip_rnd_1 pip_rnd_2 pip_rnd_3 pip_rnd_4 pip_rnd_5 pip_rnd_6 pip_rnd_7 pip_rnd_8 pip_rnd_9 pip_rnd_10 pip_rnd_11 pip_rnd_12 pip_rnd_13 pip_rnd_14 pip_rnd_15

text \<open>
  A point next to an edge of a triangle, where the two tests round differently.
\<close>

lemma near_edge_server:
  "\<not> isPointInPolygon (js p) (Finite (7205759403792793 / 36028797018963968)) (Finite 1)
       (map finitePoint
          [\<lparr> latitude = 0, longitude = 0 \<rparr>, \<lparr> latitude = 1, longitude = 5 \<rparr>,
           \<lparr> latitude = 0, longitude = 8 \<rparr>])"
  by (simp add: isPointInPolygon_def intersect_def a_gt_def js_def finitePoint_def Let_def
        rnd_0 pip_rnd)

lemma near_edge_client:
  "isPointInPolygon_client (js p) (Finite (7205759403792793 / 36028797018963968)) (Finite 1)
       (map finitePoint
          [\<lparr> latitude = 0, longitude = 0 \<rparr>, \<lparr> latitude = 1, longitude = 5 \<rparr>,
           \<lparr> latitude = 0, longitude = 8 \<rparr>])"
  by (simp add: isPointInPolygon_client_def intersect_client_def a_gt_def js_def finitePoint_def
        Let_def rnd_0 pip_rnd)

lemma near_edge_off:
  "\<not> onBoundary (7205759403792793 / 36028797018963968) 1
          [\<lparr> latitude = 0, longitude = 0 \<rparr>, \<lparr> latitude = 1, longitude = 5 \<rparr>,
           \<lparr> latitude = 0, longitude = 8 \<rparr>]"
  by (simp add: onBoundary_def polygonEdges_def onSegment_def)

section \<open>The distance\<close>

text \<open>
  In exact arithmetic \<open>getDistance\<close> is the great-circle distance: the haversine term
  lies between 0 and 1, the distance between 0 and half the circumference.
\<close>

lemma haversine_a_exact:
  "haversine_a exact lat1 lon1 lat2 lon2 =
     sin (((lat2 - lat1) * pi / 180) / 2) * sin (((lat2 - lat1) * pi / 180) / 2) +
     cos (lat1 * pi / 180) * cos (lat2 * pi / 180) *
       sin (((lon2 - lon1) * pi / 180) / 2) * sin (((lon2 - lon1) * pi / 180) / 2)"
  by (simp add: haversine_a_def exact_def Let_def)

lemma getDistance_exact:
  "getDistance exact lat1 lon1 lat2 lon2 =
     6371000 * (2 * atan2 (sqrt (haversine_a exact lat1 lon1 lat2 lon2))
                          (sqrt (1 - haversine_a exact lat1 lon1 lat2 lon2)))"
  by (simp add: getDistance_def exact_def Let_def)

lemma getDistance_exact_spec:
  "getDistance exact lat1 lon1 lat2 lon2 = great_circle_distance lat1 lon1 lat2 lon2"
proof -
  have "haversine_a exact lat1 lon1 lat2 lon2 =
        (sin ((lat2 * pi / 180 - lat1 * pi / 180) / 2))\<^sup>2 +
        cos (lat1 * pi / 180) * cos (lat2 * pi / 180) *
          (sin ((lon2 * pi / 180 - lon1 * pi / 180) / 2))\<^sup>2"
    unfolding haversine_a_exact
    by (simp add: power2_eq_square algebra_simps diff_divide_distrib)
  then show ?thesis
    unfolding getDistance_exact great_circle_distance_def Let_def by simp
qed

lemma haversine_a_bounds:
  "0 \<le> haversine_a exact lat1 lon1 lat2 lon2 \<and> haversine_a exact lat1 lon1 lat2 lon2 \<le> 1"
proof -
  define p1 where "p1 = (lat1 * pi) / 180"
  define p2 where "p2 = (lat2 * pi) / 180"
  define t where "t = (((lat2 - lat1) * pi) / 180) / 2"
  define B where "B = sin ((((lon2 - lon1) * pi) / 180) / 2) * sin ((((lon2 - lon1) * pi) / 180) / 2)"
  define X where "X = cos (p2 - p1)"
  define Y where "Y = cos (p1 + p2)"
  have a: "haversine_a exact lat1 lon1 lat2 lon2 = sin t * sin t + cos p1 * cos p2 * B"
    by (simp add: haversine_a_exact p1_def p2_def t_def B_def algebra_simps)
  have tt: "2 * t = p2 - p1"
    by (simp add: t_def p1_def p2_def algebra_simps diff_divide_distrib)
  have "cos (2 * t) = 1 - 2 * (sin t)\<^sup>2" by (rule cos_double_sin)
  then have s: "sin t * sin t = (1 - X) / 2"
    unfolding tt X_def by (simp add: power2_eq_square)
  have c: "cos p1 * cos p2 = (X + Y) / 2"
    unfolding X_def Y_def by (simp add: cos_add cos_diff)
  have B0: "0 \<le> B" unfolding B_def by simp
  have "B = (sin ((((lon2 - lon1) * pi) / 180) / 2))\<^sup>2" by (simp add: B_def power2_eq_square)
  then have B1: "B \<le> 1" by (simp add: abs_square_le_1)
  have X: "- 1 \<le> X" "X \<le> 1" unfolding X_def by simp_all
  have Y: "- 1 \<le> Y" "Y \<le> 1" unfolding Y_def by simp_all
  have e: "haversine_a exact lat1 lon1 lat2 lon2 = ((1 - B) * (1 - X) + B * (1 + Y)) / 2"
    unfolding a s c by (simp add: field_simps)
  have e': "1 - haversine_a exact lat1 lon1 lat2 lon2 = ((1 - B) * (1 + X) + B * (1 - Y)) / 2"
    unfolding a s c by (simp add: field_simps)
  have p: "0 \<le> (1 - B) * (1 - X)" "0 \<le> B * (1 + Y)"
    and q: "0 \<le> (1 - B) * (1 + X)" "0 \<le> B * (1 - Y)"
    using B0 B1 X Y by simp_all
  have "0 \<le> haversine_a exact lat1 lon1 lat2 lon2"
    unfolding e using p by simp
  moreover have "0 \<le> 1 - haversine_a exact lat1 lon1 lat2 lon2"
    unfolding e' using q by simp
  ultimately show ?thesis by simp
qed

lemma getDistance_range:
  "0 \<le> getDistance exact lat1 lon1 lat2 lon2 \<and>
   getDistance exact lat1 lon1 lat2 lon2 \<le> 6371000 * pi"
proof -
  define a where "a = haversine_a exact lat1 lon1 lat2 lon2"
  have a: "0 \<le> a" "a \<le> 1" using haversine_a_bounds[of lat1 lon1 lat2 lon2] by (simp_all add: a_def)
  have y: "0 \<le> sqrt a" using a by simp
  have x: "0 \<le> sqrt (1 - a)" using a by simp
  have "0 \<le> atan2 (sqrt a) (sqrt (1 - a)) \<and> atan2 (sqrt a) (sqrt (1 - a)) \<le> pi / 2"
  proof (cases "0 < sqrt (1 - a)")
    case True
    have "0 \<le> sqrt a / sqrt (1 - a)" using y True by simp
    then have "0 \<le> arctan (sqrt a / sqrt (1 - a))" by simp
    moreover have "arctan (sqrt a / sqrt (1 - a)) < pi / 2" by (rule arctan_ubound)
    ultimately show ?thesis using True by (simp add: atan2_def)
  next
    case False
    with x have "sqrt (1 - a) = 0" by linarith
    then show ?thesis by (simp add: atan2_def)
  qed
  then show ?thesis
    unfolding getDistance_exact a_def[symmetric] by simp
qed

text \<open>Along a meridian the distance is the Earth radius times the angle.\<close>

lemma meridian_distance:
  assumes "\<bar>lat2 - lat1\<bar> \<le> 180"
  shows "getDistance exact lat1 lon lat2 lon = 6371000 * (\<bar>lat2 - lat1\<bar> * pi / 180)"
proof -
  define t where "t = ((lat2 - lat1) * pi / 180) / 2"
  have tb: "\<bar>t\<bar> \<le> pi / 2"
  proof -
    have "\<bar>t\<bar> = \<bar>lat2 - lat1\<bar> * pi / 360" by (simp add: t_def abs_mult)
    also have "\<dots> \<le> 180 * pi / 360" using assms by (intro divide_right_mono mult_right_mono) simp_all
    finally show ?thesis by simp
  qed
  have a: "haversine_a exact lat1 lon lat2 lon = (sin t)\<^sup>2"
    by (simp add: haversine_a_exact t_def power2_eq_square)
  have c0: "0 \<le> cos t" using tb by (intro cos_ge_zero) (simp_all add: abs_le_iff)
  have sa: "sqrt (haversine_a exact lat1 lon lat2 lon) = \<bar>sin t\<bar>" unfolding a by simp
  have "1 - (sin t)\<^sup>2 = (cos t)\<^sup>2" by (simp add: cos_squared_eq)
  then have sc: "sqrt (1 - haversine_a exact lat1 lon lat2 lon) = cos t"
    unfolding a using c0 by simp
  have pp: "0 < pi" by simp
  have st: "\<bar>sin t\<bar> = sin \<bar>t\<bar>"
  proof (cases "0 \<le> t")
    case True
    have "t \<le> pi" using tb True pp by linarith
    then have "0 \<le> sin t" using True by (intro sin_ge_zero)
    then show ?thesis using True by simp
  next
    case False
    have "0 \<le> - t" "- t \<le> pi" using tb False pp by linarith+
    then have "0 \<le> sin (- t)" by (intro sin_ge_zero)
    then show ?thesis using False by simp
  qed
  have at: "atan2 (sin \<bar>t\<bar>) (cos t) = \<bar>t\<bar>"
  proof (cases "\<bar>t\<bar> = pi / 2")
    case True
    have "cos t = cos \<bar>t\<bar>" by simp
    then have c1: "cos t = 0" unfolding True by simp
    have s1: "sin \<bar>t\<bar> = 1" unfolding True by simp
    have r: "atan2 1 0 = pi / 2" by (simp add: atan2_def)
    show ?thesis unfolding s1 c1 r by (simp only: True)
  next
    case False
    then have lt: "\<bar>t\<bar> < pi / 2" using tb by linarith
    then have "0 < cos \<bar>t\<bar>" by (intro cos_gt_zero_pi) simp_all
    then have cp: "0 < cos t" by simp
    have "arctan (tan \<bar>t\<bar>) = \<bar>t\<bar>" using lt by (intro arctan_tan) simp_all
    then have "arctan (sin \<bar>t\<bar> / cos t) = \<bar>t\<bar>" by (simp add: tan_def)
    then show ?thesis using cp by (simp add: atan2_def)
  qed
  have "getDistance exact lat1 lon lat2 lon = 6371000 * (2 * \<bar>t\<bar>)"
    unfolding getDistance_exact sa sc st at ..
  also have "2 * \<bar>t\<bar> = \<bar>lat2 - lat1\<bar> * pi / 180" by (simp add: t_def abs_mult)
  finally show ?thesis .
qed

subsection \<open>The distance in double arithmetic\<close>

lemma demo_cos_finite: "\<exists>c. Math_cos demo_math (Finite w) = Finite c \<and> \<bar>c\<bar> \<le> 2"
proof (cases "w = 0")
  case True
  then show ?thesis by (simp add: Math_cos_def)
next
  case False
  show ?thesis
  proof (cases "\<bar>w\<bar> = 5030569068109113 / 36028797018963968")
    case True
    then have "Math_cos demo_math (Finite w) = Finite (4459770905381437 / 4503599627370496)"
      using False by (simp add: Math_cos_def demo_math_def)
    moreover have "\<bar>4459770905381437 / 4503599627370496 :: real\<bar> \<le> 2" by simp
    ultimately show ?thesis by blast
  next
    case F: False
    have "\<bar>cos w\<bar> \<le> 1" by simp
    moreover have "(1::real) < 2 ^ 53" by simp
    ultimately have "\<bar>cos w\<bar> < 2 ^ 53" by linarith
    from rnd_bounded[OF this] obtain c where c: "rnd (cos w) = Finite c" "\<bar>c\<bar> \<le> \<bar>cos w\<bar> + 1"
      by blast
    have "\<bar>cos w\<bar> + 1 \<le> 2" by simp
    with c have "\<bar>c\<bar> \<le> 2" by linarith
    moreover have "Math_cos demo_math (Finite w) = Finite c"
      using False F c by (simp add: Math_cos_def demo_math_def)
    ultimately show ?thesis by blast
  qed
qed

text \<open>On the example platform a point is at distance zero from itself.\<close>

lemma same_point_distance:
  assumes "\<bar>x\<bar> < 2 ^ 50"
  shows "getDistance (js demo_math) (Finite x) (Finite y) (Finite x) (Finite y) = Finite 0"
proof -
  have pi4: "\<bar>884279719003555 / 281474976710656 :: real\<bar> \<le> 4" by simp
  have "\<bar>x * (884279719003555 / 281474976710656)\<bar> \<le> \<bar>x\<bar> * 4"
    unfolding abs_mult using pi4 by (intro mult_left_mono) simp_all
  moreover have "\<bar>x\<bar> * 4 < 2 ^ 50 * 4" using assms by simp
  moreover have "(2::real) ^ 50 * 4 = 2 ^ 52" by simp
  ultimately have b: "\<bar>x * (884279719003555 / 281474976710656)\<bar> < 2 ^ 52" by linarith
  moreover have "(2::real) ^ 52 < 2 ^ 53" by simp
  ultimately have "\<bar>x * (884279719003555 / 281474976710656)\<bar> < 2 ^ 53" by linarith
  from rnd_bounded[OF this] obtain u
    where u: "rnd (x * (884279719003555 / 281474976710656)) = Finite u"
      and ub: "\<bar>u\<bar> \<le> \<bar>x * (884279719003555 / 281474976710656)\<bar> + 1"
    by blast
  have "\<bar>u / 180\<bar> \<le> \<bar>u\<bar>" by simp
  moreover have "(2::real) ^ 52 + 1 < 2 ^ 53" by simp
  ultimately have "\<bar>u / 180\<bar> < 2 ^ 53" using ub b by linarith
  from rnd_bounded[OF this] obtain w where w: "rnd (u / 180) = Finite w" by blast
  obtain c where c: "Math_cos demo_math (Finite w) = Finite c" and cb: "\<bar>c\<bar> \<le> 2"
    using demo_cos_finite by blast
  have "\<bar>c * c\<bar> \<le> 2 * 2" unfolding abs_mult using cb by (intro mult_mono) simp_all
  moreover have "(2 * 2 :: real) < 2 ^ 53" by simp
  ultimately have "\<bar>c * c\<bar> < 2 ^ 53" by linarith
  from rnd_bounded[OF this] obtain d where d: "rnd (c * c) = Finite d" by blast
  have r180: "rnd 180 = Finite 180" using rnd_scaled[of "180" 45 6333186975989760] by simp
  have r2: "rnd 2 = Finite 2" using rnd_scaled[of "2" 51 4503599627370496] by simp
  have r1: "rnd 1 = Finite 1" using rnd_scaled[of "1" 52 4503599627370496] by simp
  have rR: "rnd 6371000 = Finite 6371000"
    using rnd_scaled[of "6371000" 30 6840809160704000] by simp
  have u': "rnd (x * 884279719003555 / 281474976710656) = Finite u"
    using u by simp
  have a: "haversine_a (js demo_math) (Finite x) (Finite y) (Finite x) (Finite y) = Finite 0"
    by (simp add: haversine_a_def js_def Let_def r180 r2 rnd_0 Math_sin_def Math_PI_def
          u' w c d)
  show ?thesis
    by (simp add: getDistance_def Let_def a)
       (simp add: js_def r1 r2 rR rnd_0 Math_sqrt_def Math_atan2_def)
qed

lemma literal_11_63264: "rnd 11.63264 = Finite (6548594146166891 / 562949953421312)"
  using rnd_scaled[of "11.63264" 49 6548594146166891] by simp

lemma literal_3000: "rnd 3000 = Finite 3000"
  using rnd_scaled[of "3000" 41 6597069766656000] by simp

lemma literal_78_1320192: "\<exists>y. rnd 78.1320192 = Finite y"
  using rnd_bounded[of "78.1320192"] by auto

text \<open>The center of the repository's boundary is inside it.\<close>

lemma center_inside:
  "isInside (js demo_math) TEST_CONFIG (rnd 11.63264) (rnd 78.1320192)"
proof -
  obtain y where y: "rnd 78.1320192 = Finite y" using literal_78_1320192 by blast
  have b: "\<bar>6548594146166891 / 562949953421312 :: real\<bar> < 2 ^ 50" by simp
  show ?thesis
    unfolding isInside_def radiusMode_def TEST_CONFIG_def literal_11_63264 y literal_3000
    using same_point_distance[OF b, of y]
    by (simp add: js_def ftruthy_def)
qed

lemma hav_rnd_1: "rnd (180) = Finite (180)"
  using rnd_scaled[of "180" 45 6333186975989760] by simp

lemma hav_rnd_2: "rnd (2) = Finite (2)"
  using rnd_scaled[of "2" 51 4503599627370496] by simp

lemma hav_rnd_3: "rnd (884279719003555 / 35184372088832) = Finite (884279719003555 / 35184372088832)"
  using rnd_scaled[of "884279719003555 / 35184372088832" 48 7074237752028440] by simp

lemma hav_rnd_4: "rnd (176855943800711 / 1266637395197952) = Finite (5030569068109113 / 36028797018963968)"
  using rnd_scaled[of "176855943800711 / 1266637395197952" 55 5030569068109113] by simp

lemma hav_rnd_5: "rnd (- (884279719003555 / 35184372088832)) = Finite (- (884279719003555 / 35184372088832))"
  using rnd_scaled[of "- (884279719003555 / 35184372088832)" 48 7074237752028440] by simp

lemma hav_rnd_6: "rnd (- (176855943800711 / 1266637395197952)) = Finite (- (5030569068109113 / 36028797018963968))"
  using rnd_scaled[of "- (176855943800711 / 1266637395197952)" 55 5030569068109113] by simp

lemma hav_rnd_7: "rnd (- 16) = Finite (- 16)"
  using rnd_scaled[of "- 16" 48 4503599627370496] by simp

lemma hav_rnd_8: "rnd (- (884279719003555 / 17592186044416)) = Finite (- (884279719003555 / 17592186044416))"
  using rnd_scaled[of "- (884279719003555 / 17592186044416)" 47 7074237752028440] by simp

lemma hav_rnd_9: "rnd (- (176855943800711 / 633318697598976)) = Finite (- (5030569068109113 / 18014398509481984))"
  using rnd_scaled[of "- (176855943800711 / 633318697598976)" 54 5030569068109113] by simp

lemma hav_rnd_10: "rnd (39792587355159975 / 70368744177664) = Finite (4974073419394997 / 8796093022208)"
  using rnd_scaled[of "39792587355159975 / 70368744177664" 43 4974073419394997] by simp

lemma hav_rnd_11: "rnd (4974073419394997 / 1583296743997440) = Finite (884279719003555 / 281474976710656)"
  using rnd_scaled[of "4974073419394997 / 1583296743997440" 51 7074237752028440] by simp

lemma hav_rnd_12: "rnd (- (5030569068109113 / 36028797018963968)) = Finite (- (5030569068109113 / 36028797018963968))"
  using rnd_scaled[of "- (5030569068109113 / 36028797018963968)" 55 5030569068109113] by simp

lemma hav_rnd_13: "rnd (884279719003555 / 562949953421312) = Finite (884279719003555 / 562949953421312)"
  using rnd_scaled[of "884279719003555 / 562949953421312" 52 7074237752028440] by simp

lemma hav_rnd_14: "rnd (25142596810554238581887470460529 / 1298074214633706907132624082305024) = Finite (1395694493897217 / 72057594037927936)"
  using rnd_scaled[of "25142596810554238581887470460529 / 1298074214633706907132624082305024" 58 5582777975588868] by simp

lemma hav_rnd_15: "rnd (19889556528486762294526464184969 / 20282409603651670423947251286016) = Finite (8832737443003841 / 9007199254740992)"
  using rnd_scaled[of "19889556528486762294526464184969 / 20282409603651670423947251286016" 53 8832737443003841] by simp

lemma hav_rnd_16: "rnd (8832737443003841 / 9007199254740992) = Finite (8832737443003841 / 9007199254740992)"
  using rnd_scaled[of "8832737443003841 / 9007199254740992" 53 8832737443003841] by simp

lemma hav_rnd_17: "rnd (72057594037927945 / 72057594037927936) = Finite (4503599627370497 / 4503599627370496)"
  using rnd_scaled[of "72057594037927945 / 72057594037927936" 52 4503599627370497] by simp

lemma hav_rnd_18: "rnd (1) = Finite (1)"
  using rnd_scaled[of "1" 52 4503599627370496] by simp

lemma hav_rnd_19: "rnd (- (1 / 4503599627370496)) = Finite (- (1 / 4503599627370496))"
  using rnd_scaled[of "- (1 / 4503599627370496)" 104 4503599627370496] by simp

lemma hav_rnd_20: "rnd (6371000) = Finite (6371000)"
  using rnd_scaled[of "6371000" 30 6840809160704000] by simp

lemma hav_rnd_21: "rnd (30000000) = Finite (30000000)"
  using rnd_scaled[of "30000000" 28 8053063680000000] by simp

lemmas hav_rnd = hav_rnd_1 hav_rnd_2 hav_rnd_3 hav_rnd_4 hav_rnd_5 hav_rnd_6 hav_rnd_7 hav_rnd_8 hav_rnd_9 hav_rnd_10 hav_rnd_11 hav_rnd_12 hav_rnd_13 hav_rnd_14 hav_rnd_15 hav_rnd_16 hav_rnd_17 hav_rnd_18 hav_rnd_19 hav_rnd_20 hav_rnd_21

text \<open>
  From (8, 0) to its antipode the haversine term is rounded to a number above 1, and the
  distance is NaN.
\<close>

lemma antipode_a:
  "haversine_a (js demo_math) (Finite 8) (Finite 0) (Finite (- 8)) (Finite 180) =
     Finite (4503599627370497 / 4503599627370496)"
  by (simp add: haversine_a_def js_def Let_def Math_PI_def Math_sin_def Math_cos_def demo_math_def
        rnd_0 hav_rnd)

lemma antipode_distance:
  "getDistance (js demo_math) (Finite 8) (Finite 0) (Finite (- 8)) (Finite 180) = NaN"
  by (simp add: getDistance_def Let_def antipode_a)
     (simp add: js_def Math_sqrt_def Math_atan2_def hav_rnd)

section \<open>Properties of the handler\<close>

lemma same_day_window:
  "(setHours_0_0_0_0 tz d \<le> t \<and> t \<le> setHours_23_59_59_999 tz d) = (localDay tz t = localDay tz d)"
proof -
  define D where "D = d + tz"
  define T where "T = t + tz"
  have D: "D = 86400000 * (D div 86400000) + D mod 86400000" by simp
  have T: "T = 86400000 * (T div 86400000) + T mod 86400000" by simp
  have Db: "0 \<le> D mod 86400000" "D mod 86400000 < 86400000" by simp_all
  have Tb: "0 \<le> T mod 86400000" "T mod 86400000 < 86400000" by simp_all
  have "(d - D mod 86400000 \<le> t \<and> t \<le> d - D mod 86400000 + (86400000 - 1)) =
        (T div 86400000 = D div 86400000)"
    using D T Db Tb unfolding D_def T_def by linarith
  then show ?thesis
    by (simp add: setHours_0_0_0_0_def setHours_23_59_59_999_def localDay_def msPerDay_def D_def T_def)
qed

lemma findOne_None_iff:
  "(findOne uid (setHours_0_0_0_0 tz d) (setHours_23_59_59_999 tz d) ledger = None) =
   (\<forall>a \<in> set ledger. \<not> (userId a = uid \<and> localDay tz (date a) = localDay tz d))"
  by (auto simp: findOne_def find_None_iff same_day_window)

text \<open>
  The geofence turns a request away with the boundary message, or with the 500 of a
  hostel name that is only found on \<open>Object.prototype\<close>.
\<close>

lemma geofenceCheck_resp:
  "geofenceCheck e user req = Some resp \<Longrightarrow> (\<exists>h. resp = OutsideBoundaries h) \<or> resp = ServerError"
  by (auto simp: geofenceCheck_def Let_def split: lookup.splits if_splits)

lemma geofenceCheck_inherited:
  assumes "body_selectedHostel req = Some h" and "h \<in> set objectPrototypeKeys"
    and "hostels e h = None"
    and "body_latitude req = CoordNum lat" and "body_longitude req = CoordNum lon"
  shows "geofenceCheck e user req = Some ServerError"
proof -
  have "h \<noteq> []" using assms(2) by (auto simp: objectPrototypeKeys_def)
  then show ?thesis
    using assms by (simp add: geofenceCheck_def lookupHostel_def Let_def)
qed

lemma faceVerification_resp:
  "faceVerification e user req = (Some resp, calls) \<Longrightarrow>
     resp = FaceIdNotRegistered \<or> (\<exists>m. resp = FaceError m) \<or>
     (\<exists>s. resp = FaceMismatch s) \<or> resp = FaceServiceError"
  by (auto simp: faceVerification_def Let_def split: option.splits if_splits outcome.splits)

text \<open>The handler before the save, unfolded along its gates.\<close>

lemma preCommit_unfold:
  "preCommit e faults req ledger =
     (if faults FindUser then (Inl ServerError, [CallFindById (body_userId req)])
      else case users e (body_userId req) of
        None \<Rightarrow> (Inl UserNotFound, [CallFindById (body_userId req)])
      | Some user \<Rightarrow>
          if faults FindAttendance
          then (Inl ServerError, [CallFindById (body_userId req), CallFindOne (body_userId req)])
          else if findOne (body_userId req) (setHours_0_0_0_0 (tzOffset e) (body_date req))
                    (setHours_23_59_59_999 (tzOffset e) (body_date req)) ledger \<noteq> None
          then (Inl AlreadyMarked, [CallFindById (body_userId req), CallFindOne (body_userId req)])
          else if geofenceCheck e user req \<noteq> None
          then (Inl (the (geofenceCheck e user req)),
                [CallFindById (body_userId req), CallFindOne (body_userId req)])
          else if fst (faceVerification e user req) \<noteq> None
          then (Inl (the (fst (faceVerification e user req))),
                [CallFindById (body_userId req), CallFindOne (body_userId req)] @
                  snd (faceVerification e user req))
          else (Inr (newAttendance req),
                [CallFindById (body_userId req), CallFindOne (body_userId req)] @
                  snd (faceVerification e user req)))"
  by (simp add: preCommit_def Let_def split: option.split prod.split)

lemma preCommit_Inl_cases:
  assumes "preCommit e faults req ledger = (Inl resp, calls)"
  shows "resp = ServerError \<or> resp = UserNotFound \<or> resp = AlreadyMarked \<or>
         (\<exists>u. geofenceCheck e u req = Some resp) \<or>
         (\<exists>u. fst (faceVerification e u req) = Some resp)"
  using assms unfolding preCommit_unfold
  by (auto split: if_splits option.splits)

lemma preCommit_Inl_not_Created:
  assumes "preCommit e faults req ledger = (Inl resp, calls)"
  shows "resp \<noteq> Created a"
proof -
  from preCommit_Inl_cases[OF assms]
  consider "resp = ServerError \<or> resp = UserNotFound \<or> resp = AlreadyMarked"
    | u where "geofenceCheck e u req = Some resp"
    | u where "fst (faceVerification e u req) = Some resp"
    by blast
  then show ?thesis
  proof cases
    case 1
    then show ?thesis by auto
  next
    case 2
    from geofenceCheck_resp[OF 2] show ?thesis by auto
  next
    case 3
    then have "faceVerification e u req = (Some resp, snd (faceVerification e u req))"
      by (metis prod.collapse)
    from faceVerification_resp[OF this] show ?thesis by auto
  qed
qed

lemma preCommit_Inr:
  assumes "preCommit e faults req ledger = (Inr att, calls)"
  shows "att = newAttendance req \<and> users e (body_userId req) \<noteq> None \<and>
     \<not> faults FindUser \<and> \<not> faults FindAttendance \<and>
     findOne (body_userId req) (setHours_0_0_0_0 (tzOffset e) (body_date req))
        (setHours_23_59_59_999 (tzOffset e) (body_date req)) ledger = None"
  using assms unfolding preCommit_unfold
  by (simp split: if_splits option.splits)

lemma post_cases:
  assumes "post e faults req ledger = (resp, calls, ledger')"
  shows "(ledger' = ledger \<and> (\<forall>a. resp \<noteq> Created a)) \<or>
         (resp = Created (newAttendance req) \<and> ledger' = ledger @ [newAttendance req] \<and>
          users e (body_userId req) \<noteq> None \<and>
          findOne (body_userId req) (setHours_0_0_0_0 (tzOffset e) (body_date req))
            (setHours_23_59_59_999 (tzOffset e) (body_date req)) ledger = None)"
proof (cases "preCommit e faults req ledger")
  case (Pair r cs)
  show ?thesis
  proof (cases r)
    case (Inl x)
    with Pair assms preCommit_Inl_not_Created[of e faults req ledger x cs]
    show ?thesis by (auto simp: post_def)
  next
    case (Inr att)
    with Pair preCommit_Inr[of e faults req ledger att cs] assms
    show ?thesis by (auto simp: post_def commit_def split: if_splits)
  qed
qed

lemma onePresentPerDay_snoc:
  assumes "onePresentPerDay tz ledger"
    and "\<forall>b \<in> set ledger. \<not> (userId b = userId a \<and> localDay tz (date b) = localDay tz (date a))"
  shows "onePresentPerDay tz (ledger @ [a])"
  using assms by (auto simp: onePresentPerDay_def)

lemma newAttendance_key:
  "userId (newAttendance req) = body_userId req" "date (newAttendance req) = body_date req"
  by (simp_all add: newAttendance_def)

lemma post_invariant:
  assumes "onePresentPerDay (tzOffset e) ledger"
    and "post e faults req ledger = (resp, calls, ledger')"
  shows "onePresentPerDay (tzOffset e) ledger'"
  using post_cases[OF assms(2)] assms(1)
  by (auto simp: findOne_None_iff newAttendance_key intro!: onePresentPerDay_snoc)

lemma snd_postAll_Cons:
  "snd (postAll e ((faults, req) # rest) ledger) =
     snd (postAll e rest (snd (snd (post e faults req ledger))))"
  by (simp split: prod.splits)

lemma postAll_invariant:
  "onePresentPerDay (tzOffset e) ledger \<Longrightarrow> onePresentPerDay (tzOffset e) (snd (postAll e reqs ledger))"
proof (induction reqs arbitrary: ledger)
  case Nil
  then show ?case by simp
next
  case (Cons fr reqs)
  obtain faults req where fr: "fr = (faults, req)" by (cases fr)
  have "onePresentPerDay (tzOffset e) (snd (snd (post e faults req ledger)))"
    using post_invariant[OF Cons.prems, of faults req] by (metis prod.collapse)
  from Cons.IH[OF this] show ?case
    unfolding fr snd_postAll_Cons .
qed

lemma post_keeps:
  "post e faults req ledger = (resp, calls, ledger') \<Longrightarrow> set ledger \<subseteq> set ledger'"
  using post_cases[of e faults req ledger resp calls ledger'] by auto

lemma postAll_keeps:
  "set ledger \<subseteq> set (snd (postAll e reqs ledger))"
proof (induction reqs arbitrary: ledger)
  case Nil
  then show ?case by simp
next
  case (Cons fr reqs)
  obtain faults req where fr: "fr = (faults, req)" by (cases fr)
  have "set ledger \<subseteq> set (snd (snd (post e faults req ledger)))"
    using post_keeps[of e faults req ledger] by (metis prod.collapse)
  moreover have "set (snd (snd (post e faults req ledger))) \<subseteq>
                 set (snd (postAll e reqs (snd (snd (post e faults req ledger)))))"
    using Cons.IH .
  ultimately show ?case
    unfolding fr snd_postAll_Cons by blast
qed

lemma post_duplicate:
  assumes u: "users e (body_userId req) = Some user"
    and d: "b \<in> set ledger" "userId b = body_userId req"
           "localDay (tzOffset e) (date b) = localDay (tzOffset e) (body_date req)"
  shows "post e faults req ledger =
           (if faults FindUser \<or> faults FindAttendance then ServerError else AlreadyMarked,
            if faults FindUser then [CallFindById (body_userId req)]
            else [CallFindById (body_userId req), CallFindOne (body_userId req)],
            ledger)"
proof -
  have "findOne (body_userId req) (setHours_0_0_0_0 (tzOffset e) (body_date req))
          (setHours_23_59_59_999 (tzOffset e) (body_date req)) ledger \<noteq> None"
    using d by (auto simp: findOne_None_iff)
  then show ?thesis
    using u by (auto simp: post_def preCommit_def Let_def)
qed

subsection \<open>The widened window and the printed score\<close>

lemma widened_window:
  "(setHours_0_0_0_0 tz d - msPerDay \<le> t \<and> t \<le> setHours_23_59_59_999 tz d + msPerDay) =
   (\<bar>localDay tz t - localDay tz d\<bar> \<le> 1)"
proof -
  define D where "D = d + tz"
  define T where "T = t + tz"
  have D: "D = 86400000 * (D div 86400000) + D mod 86400000" by simp
  have T: "T = 86400000 * (T div 86400000) + T mod 86400000" by simp
  have Db: "0 \<le> D mod 86400000" "D mod 86400000 < 86400000" by simp_all
  have Tb: "0 \<le> T mod 86400000" "T mod 86400000 < 86400000" by simp_all
  have "(d - D mod 86400000 - 86400000 \<le> t \<and> t \<le> d - D mod 86400000 + (86400000 - 1) + 86400000) =
        (\<bar>T div 86400000 - D div 86400000\<bar> \<le> 1)"
    using D T Db Tb unfolding D_def T_def by linarith
  then show ?thesis
    by (simp add: setHours_0_0_0_0_def setHours_23_59_59_999_def localDay_def msPerDay_def D_def T_def)
qed

lemma toFixed1_close: "\<bar>toFixed1 x - x\<bar> \<le> 1 / 20"
proof (cases "x < 0")
  case True
  have "\<bar>real_of_int (round (- x * 10)) - (- x * 10)\<bar> \<le> 1 / 2"
    by (rule of_int_round_abs_le)
  then show ?thesis using True by (simp add: toFixed1_def abs_if split: if_splits)
next
  case False
  have "\<bar>real_of_int (round (x * 10)) - x * 10\<bar> \<le> 1 / 2"
    by (rule of_int_round_abs_le)
  then show ?thesis using False by (simp add: toFixed1_def abs_if split: if_splits)
qed

subsection \<open>Requests of an unenrolled user\<close>

lemma faceVerification_unenrolled:
  assumes "faceEmbedding user = None \<or> faceEmbedding user = Some []"
    and "body_isPresent req = Some True" and "truthy (body_photoUrl req)"
  shows "faceVerification e user req = (Some FaceIdNotRegistered, [])"
  using assms by (auto simp: faceVerification_def)

lemma preCommit_calls_prefix:
  "snd (preCommit e faults req ledger) = [CallFindById (body_userId req)] \<or>
   snd (preCommit e faults req ledger) = [CallFindById (body_userId req), CallFindOne (body_userId req)] \<or>
   (\<exists>user. users e (body_userId req) = Some user \<and>
      snd (preCommit e faults req ledger) =
        [CallFindById (body_userId req), CallFindOne (body_userId req)] @
          snd (faceVerification e user req))"
  unfolding preCommit_unfold by (auto split: option.splits)

subsection \<open>The example inputs, evaluated\<close>

text \<open>A request located at the center of the repository's boundary passes the geofence.\<close>

lemma geofence_at_center:
  assumes "hostels e = HOSTEL_LOCATIONS" and "math e = demo_math"
    and "body_selectedHostel req = Some ''TEST - My Location''"
    and "body_latitude req = CoordNum (rnd 11.63264)"
    and "body_longitude req = CoordNum (rnd 78.1320192)"
  shows "geofenceCheck e user req = None"
proof -
  have "lookupHostel (hostels e) ''TEST - My Location'' = Own TEST_CONFIG"
    using assms(1) by (simp add: lookupHostel_def HOSTEL_LOCATIONS_def)
  moreover have "isInside (js (math e)) TEST_CONFIG (parseFloat (body_latitude req))
                   (parseFloat (body_longitude req))"
    using center_inside assms(2,4,5) by (simp add: parseFloat_def)
  ultimately show ?thesis
    using assms(3) by (simp add: geofenceCheck_def Let_def)
qed

lemmas demo_defs = demo_env_def demo_request_def no_faults_def demo_users_def

lemmas handler_defs = post_def preCommit_unfold commit_def findOne_def geofence_at_center
  faceVerification_def truthy_def sanitize_def split_str_def
  MATCH_THRESHOLD_def Let_def newAttendance_def

lemma demo_post:
  "post demo_env no_faults demo_request [] =
     (Created (newAttendance demo_request),
      [CallFindById ''u1'', CallFindOne ''u1'',
       CallGetFaceEmbedding ''data:image/jpeg;base64,AAAA'',
       CallCalculateSimilarity [1, 0] [1, 0], CallSave],
      [newAttendance demo_request])"
  by (simp add: demo_defs handler_defs)

lemma demo_post_again:
  "post demo_env no_faults demo_request [newAttendance demo_request] =
     (AlreadyMarked, [CallFindById ''u1'', CallFindOne ''u1''], [newAttendance demo_request])"
  by (simp add: demo_defs handler_defs setHours_0_0_0_0_def setHours_23_59_59_999_def msPerDay_def)

lemma demo_preCommit:
  "preCommit demo_env no_faults demo_request [] =
     (Inr (newAttendance demo_request),
      [CallFindById ''u1'', CallFindOne ''u1'',
       CallGetFaceEmbedding ''data:image/jpeg;base64,AAAA'',
       CallCalculateSimilarity [1, 0] [1, 0]])"
  by (simp add: demo_defs handler_defs)

lemma demo_preCommit_again:
  "preCommit demo_env no_faults demo_request [newAttendance demo_request] =
     (Inl AlreadyMarked, [CallFindById ''u1'', CallFindOne ''u1''])"
  by (simp add: demo_defs handler_defs setHours_0_0_0_0_def setHours_23_59_59_999_def msPerDay_def)

lemma demo_commit:
  "commit no_faults a ledger = (Created a, ledger @ [a])"
  by (simp add: commit_def no_faults_def)

text \<open>
  The same request with \<open>selectedHostel\<close> set to \<open>constructor\<close>: the table has no such
  hostel, the lookup finds \<open>Object.prototype.constructor\<close>, and the request is answered 500
  without a record.
\<close>

lemma demo_post_constructor:
  "post demo_env no_faults (demo_request \<lparr> body_selectedHostel := Some ''constructor'' \<rparr>) [] =
     (ServerError, [CallFindById ''u1'', CallFindOne ''u1''], [])"
proof -
  let ?r = "demo_request \<lparr> body_selectedHostel := Some ''constructor'' \<rparr>"
  have g: "geofenceCheck demo_env user ?r = Some ServerError" for user
    by (rule geofenceCheck_inherited[of _ "''constructor''"])
       (simp_all add: demo_defs objectPrototypeKeys_def HOSTEL_LOCATIONS_def)
  have bu: "body_userId demo_request = ''u1''" by (simp add: demo_request_def)
  have u: "users demo_env ''u1'' =
             Some \<lparr> hostelBlock = ''Valluvar Mens Hostel'', faceEmbedding = Some [1, 0] \<rparr>"
    by (simp add: demo_defs)
  have f: "\<not> no_faults c" for c by (simp add: no_faults_def)
  show ?thesis
    by (simp add: post_def preCommit_unfold g bu u f findOne_def)
qed

section \<open>The claims\<close>

subsection \<open>Polygon test\<close>

text \<open>
  C9. For every polygon, every query point and every cyclic rotation of the polygon's
  vertex list, the server's point-in-polygon test returns the same result for the rotated
  list as for the original one, in double arithmetic as the code runs it and in exact
  arithmetic alike. The statement holds for all query points, so in particular for those
  that lie on no edge and no vertex.
\<close>

theorem isPointInPolygon_rotate:
  "isPointInPolygon ar lat lon (rotate n polygon) = isPointInPolygon ar lat lon polygon"
  by (induction n) (simp_all add: isPointInPolygon_rotate1)

text \<open>
  C10, as amended. In exact arithmetic the client's point-in-polygon test (longitude as X,
  latitude as Y) and the server's (the axes swapped) return the same result for every
  polygon and every query point that lies on no edge and no vertex of the polygon. In any
  arithmetic, that of doubles included, the server's test is the client's test of the
  mirror image: latitude and longitude exchanged in the query point and in every vertex.
\<close>

theorem client_server_agree:
  assumes "\<not> onBoundary lat lon polygon"
  shows "isPointInPolygon_client exact lat lon polygon = isPointInPolygon exact lat lon polygon \<and>
         isPointInPolygon ar x y vertices =
           isPointInPolygon_client ar y x (map swapAxes vertices)"
  using exact_agree[OF assms] server_is_swapped_client[of ar x y vertices] by simp

theorem client_server_agree_witness:
  "\<not> onBoundary (7205759403792793 / 36028797018963968) 1
       [\<lparr> latitude = 0, longitude = 0 \<rparr>, \<lparr> latitude = 1, longitude = 5 \<rparr>,
        \<lparr> latitude = 0, longitude = 8 \<rparr>] \<and>
   isPointInPolygon_client exact (7205759403792793 / 36028797018963968) 1
       [\<lparr> latitude = 0, longitude = 0 \<rparr>, \<lparr> latitude = 1, longitude = 5 \<rparr>,
        \<lparr> latitude = 0, longitude = 8 \<rparr>] \<and>
   isPointInPolygon exact (7205759403792793 / 36028797018963968) 1
       [\<lparr> latitude = 0, longitude = 0 \<rparr>, \<lparr> latitude = 1, longitude = 5 \<rparr>,
        \<lparr> latitude = 0, longitude = 8 \<rparr>] \<and>
   isPointInPolygon exact 1 (7205759403792793 / 36028797018963968)
       [\<lparr> latitude = 0, longitude = 0 \<rparr>, \<lparr> latitude = 5, longitude = 1 \<rparr>,
        \<lparr> latitude = 8, longitude = 0 \<rparr>]"
proof -
  let ?t = "[\<lparr> latitude = 0, longitude = 0 \<rparr>, \<lparr> latitude = 1, longitude = 5 \<rparr>,
             \<lparr> latitude = 0, longitude = 8 \<rparr>] :: real LatLng list"
  let ?s = "[\<lparr> latitude = 0, longitude = 0 \<rparr>, \<lparr> latitude = 5, longitude = 1 \<rparr>,
             \<lparr> latitude = 8, longitude = 0 \<rparr>] :: real LatLng list"
  have off: "\<not> onBoundary (7205759403792793 / 36028797018963968) 1 ?t"
    by (simp add: onBoundary_def polygonEdges_def onSegment_def)
  have s: "isPointInPolygon exact (7205759403792793 / 36028797018963968) 1 ?t"
    by (simp add: isPointInPolygon_def intersect_def a_gt_def exact_def)
  have m: "map swapAxes ?s = ?t" by (simp add: swapAxes_def)
  from client_server_agree[OF off, of exact 1 "7205759403792793 / 36028797018963968" ?s]
  show ?thesis using off s unfolding m by simp
qed

text \<open>
  C10 as stated fails in the arithmetic of the code. The point of latitude
  0.19999999999999998 (a double) and longitude 1 lies inside the triangle (0, 0), (1, 5),
  (0, 8), on no edge. The client finds one crossing, with the edge between (0, 8) and
  (1, 5), and answers inside. For the server the edge between (1, 5) and (0, 0) is the one
  to cross: its bound \<open>(0 - 1) * (1 - 5) / (0 - 5) + 1\<close> is 0.2 in exact arithmetic, but the
  quotient \<open>4 / -5\<close> is rounded and the sum comes out as 0.19999999999999996, which is not
  greater than the latitude of the point. The server finds no crossing and answers outside.
\<close>

theorem client_server_counterexample:
  "rnd (7205759403792793 / 36028797018963968) = Finite (7205759403792793 / 36028797018963968) \<and>
   \<not> onBoundary (7205759403792793 / 36028797018963968) 1
       [\<lparr> latitude = 0, longitude = 0 \<rparr>, \<lparr> latitude = 1, longitude = 5 \<rparr>,
        \<lparr> latitude = 0, longitude = 8 \<rparr>] \<and>
   isPointInPolygon_client (js demo_math) (Finite (7205759403792793 / 36028797018963968)) (Finite 1)
       (map finitePoint
          [\<lparr> latitude = 0, longitude = 0 \<rparr>, \<lparr> latitude = 1, longitude = 5 \<rparr>,
           \<lparr> latitude = 0, longitude = 8 \<rparr>]) \<and>
   \<not> isPointInPolygon (js demo_math) (Finite (7205759403792793 / 36028797018963968)) (Finite 1)
       (map finitePoint
          [\<lparr> latitude = 0, longitude = 0 \<rparr>, \<lparr> latitude = 1, longitude = 5 \<rparr>,
           \<lparr> latitude = 0, longitude = 8 \<rparr>])"
  using pip_rnd_12 near_edge_off near_edge_client[of demo_math] near_edge_server[of demo_math]
  by blast

subsection \<open>Geofence\<close>

text \<open>
  C5, as amended. A boundary that carries a center and a radius is evaluated in radius mode
  whatever its polygon points are, provided the radius is truthy (not zero, not NaN; the
  data model demands a radius greater than zero). In radius mode the point is inside
  exactly when the distance that \<open>getDistance\<close> computes is at most the radius: an equal
  distance counts as inside, a NaN distance as outside. \<open>getDistance\<close> is the haversine
  formula with Earth radius 6371000 m, evaluated in double arithmetic; evaluated in exact
  arithmetic it is the great-circle distance, so that there the point is inside exactly
  when its great-circle distance from the center is at most the radius.
\<close>

theorem radius_mode_precedence:
  assumes "center hostelConfig = Some c" and "radius hostelConfig = Some r" and "ftruthy r"
    and "center exactConfig = Some c'" and "radius exactConfig = Some r'" and "r' \<noteq> 0"
  shows "isInside (js p) hostelConfig lat lon =
           fle (getDistance (js p) lat lon (latitude c) (longitude c)) r \<and>
         isInside exact exactConfig lat' lon' =
           (great_circle_distance lat' lon' (latitude c') (longitude c') \<le> r')"
proof -
  have "isInside (js p) hostelConfig lat lon =
          fle (getDistance (js p) lat lon (latitude c) (longitude c)) r"
    using assms(1-3) by (simp add: isInside_def radiusMode_def js_def)
  moreover have "isInside exact exactConfig lat' lon' =
          (getDistance exact lat' lon' (latitude c') (longitude c') \<le> r')"
    using assms(4-6) by (simp add: isInside_def radiusMode_def exact_def)
  ultimately show ?thesis by (simp only: getDistance_exact_spec)
qed

theorem radius_mode_precedence_witness:
  "center TEST_CONFIG = Some \<lparr> latitude = rnd 11.63264, longitude = rnd 78.1320192 \<rparr> \<and>
   radius TEST_CONFIG = Some (rnd 3000) \<and> ftruthy (rnd 3000) \<and>
   isInside (js demo_math) TEST_CONFIG (rnd 11.63264) (rnd 78.1320192) \<and>
   isInside exact
     \<lparr> points = [\<lparr> latitude = 11.63264, longitude = 78.1320192 \<rparr>,
                 \<lparr> latitude = 11.63364, longitude = 78.1320192 \<rparr>,
                 \<lparr> latitude = 11.63364, longitude = 78.1330192 \<rparr>,
                 \<lparr> latitude = 11.63264, longitude = 78.1330192 \<rparr>],
       center = Some \<lparr> latitude = 11.63264, longitude = 78.1320192 \<rparr>,
       radius = Some 3000 \<rparr> 11.64264 78.1320192 \<and>
   \<not> isPointInPolygon exact 11.64264 78.1320192
       [\<lparr> latitude = 11.63264, longitude = 78.1320192 \<rparr>,
        \<lparr> latitude = 11.63364, longitude = 78.1320192 \<rparr>,
        \<lparr> latitude = 11.63364, longitude = 78.1330192 \<rparr>,
        \<lparr> latitude = 11.63264, longitude = 78.1330192 \<rparr>] \<and>
   \<not> isInside exact
     \<lparr> points = [\<lparr> latitude = 11.63264, longitude = 78.1320192 \<rparr>,
                 \<lparr> latitude = 11.63364, longitude = 78.1320192 \<rparr>,
                 \<lparr> latitude = 11.63364, longitude = 78.1330192 \<rparr>,
                 \<lparr> latitude = 11.63264, longitude = 78.1330192 \<rparr>],
       center = Some \<lparr> latitude = 11.63264, longitude = 78.1320192 \<rparr>,
       radius = Some 3000 \<rparr> 11.68264 78.1320192"
proof -
  let ?ps = "[\<lparr> latitude = 11.63264, longitude = 78.1320192 \<rparr>,
              \<lparr> latitude = 11.63364, longitude = 78.1320192 \<rparr>,
              \<lparr> latitude = 11.63364, longitude = 78.1330192 \<rparr>,
              \<lparr> latitude = 11.63264, longitude = 78.1330192 \<rparr>] :: real LatLng list"
  let ?c = "\<lparr> latitude = 11.63264, longitude = 78.1320192 \<rparr> :: real LatLng"
  let ?cfg = "\<lparr> points = ?ps, center = Some ?c, radius = Some 3000 \<rparr> :: real HostelBoundary"
  let ?d = "\<lparr> latitude = rnd 11.63264, longitude = rnd 78.1320192 \<rparr>"
  have 1: "center TEST_CONFIG = Some ?d" by (simp add: TEST_CONFIG_def)
  have 2: "radius TEST_CONFIG = Some (rnd 3000)" by (simp add: TEST_CONFIG_def)
  have 3: "ftruthy (rnd 3000)" by (simp add: literal_3000 ftruthy_def)
  have 4: "center ?cfg = Some ?c" by simp
  have 5: "radius ?cfg = Some 3000" by simp
  have 6: "(3000 :: real) \<noteq> 0" by simp
  have near: "great_circle_distance 11.64264 78.1320192 (latitude ?c) (longitude ?c) =
                6371000 * (\<bar>11.63264 - 11.64264\<bar> * pi / 180)"
    unfolding getDistance_exact_spec[symmetric] LatLng.simps
    by (rule meridian_distance) simp
  have far: "great_circle_distance 11.68264 78.1320192 (latitude ?c) (longitude ?c) =
                6371000 * (\<bar>11.63264 - 11.68264\<bar> * pi / 180)"
    unfolding getDistance_exact_spec[symmetric] LatLng.simps
    by (rule meridian_distance) simp
  have a1: "\<bar>11.63264 - 11.64264 :: real\<bar> = 1 / 100" by simp
  have a3: "\<bar>11.63264 - 11.68264 :: real\<bar> = 5 / 100" by simp
  have n: "6371000 * (1 / 100 * pi / 180) \<le> (3000 :: real)"
    using pi_less_4 by simp
  have f: "\<not> 6371000 * (5 / 100 * pi / 180) \<le> (3000 :: real)"
    using pi_ge_two by simp
  have in1: "isInside (js demo_math) TEST_CONFIG (rnd 11.63264) (rnd 78.1320192)"
    using radius_mode_precedence[OF 1 2 3 4 5 6, of demo_math "rnd 11.63264" "rnd 78.1320192"]
      center_inside by blast
  have in2: "isInside exact ?cfg 11.64264 78.1320192"
    using radius_mode_precedence[OF 1 2 3 4 5 6, of demo_math NaN NaN "11.64264" "78.1320192"]
      n unfolding near a1 by blast
  have out: "\<not> isInside exact ?cfg 11.68264 78.1320192"
    using radius_mode_precedence[OF 1 2 3 4 5 6, of demo_math NaN NaN "11.68264" "78.1320192"]
      f unfolding far a3 by blast
  have poly: "\<not> isPointInPolygon exact 11.64264 78.1320192 ?ps"
    by (simp add: isPointInPolygon_def intersect_def a_gt_def exact_def)
  show ?thesis using 1 2 3 in1 in2 poly out by blast
qed

text \<open>
  C5 as stated fails in the arithmetic of the code. From (8, 0) to its antipode (-8, 180)
  the haversine term comes out one unit in the last place above 1, the square root of \<open>1 - a\<close> is NaN, so is the
  distance, and the comparison with any radius is false: the point is found outside a
  radius of 30000 km although its great-circle distance from the center, half the
  circumference, is about 20015 km.
\<close>

theorem radius_distance_counterexample:
  "getDistance (js demo_math) (Finite 8) (Finite 0) (Finite (- 8)) (Finite 180) = NaN \<and>
   \<not> isInside (js demo_math)
       \<lparr> points = map finitePoint
                    [\<lparr> latitude = - 9, longitude = 179 \<rparr>, \<lparr> latitude = - 7, longitude = 179 \<rparr>,
                     \<lparr> latitude = - 7, longitude = 180 \<rparr>, \<lparr> latitude = - 9, longitude = 180 \<rparr>],
         center = Some \<lparr> latitude = Finite (- 8), longitude = Finite 180 \<rparr>,
         radius = Some (Finite 30000000) \<rparr> (Finite 8) (Finite 0) \<and>
   great_circle_distance 8 0 (- 8) 180 \<le> 30000000"
proof -
  have d: "getDistance (js demo_math) (Finite 8) (Finite 0) (Finite (- 8)) (Finite 180) = NaN"
    by (rule antipode_distance)
  have g: "great_circle_distance 8 0 (- 8) 180 \<le> 6371000 * pi"
    using getDistance_range[of 8 0 "- 8" 180] by (simp only: getDistance_exact_spec)
  have "6371000 * pi \<le> (30000000 :: real)" using pi_less_4 by simp
  with g have r: "great_circle_distance 8 0 (- 8) 180 \<le> 30000000" by linarith
  have "\<not> isInside (js demo_math)
       \<lparr> points = map finitePoint
                    [\<lparr> latitude = - 9, longitude = 179 \<rparr>, \<lparr> latitude = - 7, longitude = 179 \<rparr>,
                     \<lparr> latitude = - 7, longitude = 180 \<rparr>, \<lparr> latitude = - 9, longitude = 180 \<rparr>],
         center = Some \<lparr> latitude = Finite (- 8), longitude = Finite 180 \<rparr>,
         radius = Some (Finite 30000000) \<rparr> (Finite 8) (Finite 0)"
    by (simp add: isInside_def radiusMode_def d) (simp add: js_def ftruthy_def)
  with d r show ?thesis by blast
qed

subsection \<open>Face verification\<close>

text \<open>
  C4. When the face gate runs (presence asserted, a photo, a stored embedding, and both
  face services answer), it lets the request pass exactly when the similarity is at least
  the threshold 50. Below 50 the response is the face mismatch carrying the score as
  \<open>toFixed(1)\<close> prints it, which is within 0.05 of the score. A score of 50 passes and a
  score of 49.99 is turned away (its message reads 50.0).
\<close>

theorem face_gate_threshold:
  assumes "body_isPresent req = Some True"
    and "body_photoUrl req = Some url" "url \<noteq> []"
    and "faceEmbedding user = Some stored" "stored \<noteq> []"
    and "getFaceEmbedding e (sanitize url) = Returned currentEmbedding"
    and "calculateSimilarity e stored currentEmbedding = Returned score"
  shows "((fst (faceVerification e user req) = None) = (50 \<le> score)) \<and>
         (score < 50 \<longrightarrow>
            fst (faceVerification e user req) = Some (FaceMismatch (toFixed1 score)) \<and>
            \<bar>toFixed1 score - score\<bar> \<le> 1 / 20)"
  using assms toFixed1_close[of score]
  by (simp add: faceVerification_def truthy_def MATCH_THRESHOLD_def Let_def)

theorem face_gate_threshold_witness:
  "fst (faceVerification (demo_env \<lparr> calculateSimilarity := (\<lambda>a b. Returned 50) \<rparr>)
          \<lparr> hostelBlock = ''Valluvar Mens Hostel'', faceEmbedding = Some [1, 0] \<rparr> demo_request) = None \<and>
   fst (faceVerification (demo_env \<lparr> calculateSimilarity := (\<lambda>a b. Returned 49.99) \<rparr>)
          \<lparr> hostelBlock = ''Valluvar Mens Hostel'', faceEmbedding = Some [1, 0] \<rparr> demo_request) =
     Some (FaceMismatch 50)"
proof -
  let ?u = "\<lparr> hostelBlock = ''Valluvar Mens Hostel'', faceEmbedding = Some [1, 0] \<rparr>"
  let ?p = "''data:image/jpeg;base64,AAAA''"
  have 1: "body_isPresent demo_request = Some True" by (simp add: demo_request_def)
  have 2: "body_photoUrl demo_request = Some ?p" "?p \<noteq> []" by (simp_all add: demo_request_def)
  have 3: "faceEmbedding ?u = Some [1, 0]" "[1, 0 :: real] \<noteq> []" by simp_all
  have 4: "getFaceEmbedding (demo_env \<lparr> calculateSimilarity := (\<lambda>a b. Returned 50) \<rparr>) (sanitize ?p) = Returned [1, 0]"
    "getFaceEmbedding (demo_env \<lparr> calculateSimilarity := (\<lambda>a b. Returned 49.99) \<rparr>) (sanitize ?p) = Returned [1, 0]"
    by (simp_all add: demo_env_def)
  have 5: "calculateSimilarity (demo_env \<lparr> calculateSimilarity := (\<lambda>a b. Returned 50) \<rparr>) [1, 0] [1, 0] = Returned 50"
    "calculateSimilarity (demo_env \<lparr> calculateSimilarity := (\<lambda>a b. Returned 49.99) \<rparr>) [1, 0] [1, 0] = Returned 49.99"
    by simp_all
  have t: "toFixed1 49.99 = 50" by (simp add: toFixed1_def round_def)
  from face_gate_threshold[OF 1 2 3 4(1) 5(1)] face_gate_threshold[OF 1 2 3 4(2) 5(2)] t
  show ?thesis by simp
qed

text \<open>
  C3, as amended. A request that asserts presence and carries a photo, from a user without
  a stored embedding (absent or empty), never calls \<open>getFaceEmbedding\<close> and never commits
  a record. Its response is the missing-enrollment one whenever it reaches the face gate:
  the two lookups answer, no record of the day exists and the geofence lets it pass.
\<close>

theorem missing_enrollment_no_embedding_call:
  assumes u: "users e (body_userId req) = Some user"
    and n: "faceEmbedding user = None \<or> faceEmbedding user = Some []"
    and p: "body_isPresent req = Some True" "truthy (body_photoUrl req)"
    and r: "post e faults req ledger = (resp, calls, ledger')"
  shows "(\<forall>url. CallGetFaceEmbedding url \<notin> set calls) \<and>
         status resp \<noteq> 201 \<and> ledger' = ledger \<and>
         (\<not> faults FindUser \<and> \<not> faults FindAttendance \<and>
          findOne (body_userId req) (setHours_0_0_0_0 (tzOffset e) (body_date req))
            (setHours_23_59_59_999 (tzOffset e) (body_date req)) ledger = None \<and>
          geofenceCheck e user req = None
          \<longrightarrow> resp = FaceIdNotRegistered)"
proof -
  have f: "faceVerification e user req = (Some FaceIdNotRegistered, [])"
    using faceVerification_unenrolled[OF n p] .
  have nr: "\<And>att cs. preCommit e faults req ledger \<noteq> (Inr att, cs)"
    using u f unfolding preCommit_unfold by (auto split: if_splits)
  obtain x cs where pc: "preCommit e faults req ledger = (Inl x, cs)"
    using nr by (cases "preCommit e faults req ledger"; case_tac a) auto
  have res: "resp = x" "calls = cs" "ledger' = ledger"
    using r pc by (simp_all add: post_def)
  have c: "\<forall>url. CallGetFaceEmbedding url \<notin> set cs"
    using preCommit_calls_prefix[of e faults req ledger] pc u f by auto
  have s: "status x \<noteq> 201"
    using preCommit_Inl_not_Created[OF pc] by (cases x) auto
  have g: "\<not> faults FindUser \<and> \<not> faults FindAttendance \<and>
          findOne (body_userId req) (setHours_0_0_0_0 (tzOffset e) (body_date req))
            (setHours_23_59_59_999 (tzOffset e) (body_date req)) ledger = None \<and>
          geofenceCheck e user req = None
          \<longrightarrow> x = FaceIdNotRegistered"
    using pc u f unfolding preCommit_unfold by auto
  show ?thesis using res c s g by blast
qed

theorem missing_enrollment_no_embedding_call_witness:
  "users demo_env (body_userId demo_request_u2) =
     Some \<lparr> hostelBlock = ''Valluvar Mens Hostel'', faceEmbedding = None \<rparr> \<and>
   body_isPresent demo_request_u2 = Some True \<and> truthy (body_photoUrl demo_request_u2) \<and>
   post demo_env no_faults demo_request_u2 [] =
     (FaceIdNotRegistered, [CallFindById ''u2'', CallFindOne ''u2''], []) \<and>
   (\<forall>url. CallGetFaceEmbedding url \<notin> set [CallFindById ''u2'', CallFindOne ''u2''])"
proof -
  let ?u = "\<lparr> hostelBlock = ''Valluvar Mens Hostel'', faceEmbedding = None \<rparr>"
  have 1: "users demo_env (body_userId demo_request_u2) = Some ?u" by (simp add: demo_defs demo_request_u2_def)
  have 2: "faceEmbedding ?u = None \<or> faceEmbedding ?u = Some []" by simp
  have 3: "body_isPresent demo_request_u2 = Some True" "truthy (body_photoUrl demo_request_u2)"
    by (simp_all add: demo_defs demo_request_u2_def truthy_def)
  have 4: "post demo_env no_faults demo_request_u2 [] =
     (FaceIdNotRegistered, [CallFindById ''u2'', CallFindOne ''u2''], [])"
    by (simp add: demo_defs demo_request_u2_def handler_defs)
  from missing_enrollment_no_embedding_call[OF 1 2 3 4]
  show ?thesis using 1 3 4 by blast
qed

text \<open>
  C3 as stated fails: the duplicate check comes first, so the same request on a day that
  already has a record of the user is answered with the duplicate rejection.
\<close>

theorem missing_enrollment_counterexample:
  "body_isPresent demo_request_u2 = Some True \<and>
   truthy (body_photoUrl demo_request_u2) \<and>
   map_option faceEmbedding (users demo_env (body_userId demo_request_u2)) = Some None \<and>
   fst (post demo_env no_faults demo_request_u2 [newAttendance demo_request_u2]) = AlreadyMarked \<and>
   AlreadyMarked \<noteq> FaceIdNotRegistered"
  by (simp add: demo_defs demo_request_u2_def handler_defs setHours_0_0_0_0_def setHours_23_59_59_999_def msPerDay_def)

text \<open>
  C8. A request that asserts presence and has no photo (absent or empty) skips face
  verification: whether or not the user is enrolled, once the lookups answer, no record of
  the day exists and the geofence lets it pass, a record marked present is saved and the
  response is 201; the only calls are the two lookups and the save. The geofence lets a
  request pass when it returns \<open>None\<close>; a hostel name found only on \<open>Object.prototype\<close>
  makes it return the 500 instead.
\<close>

theorem no_photo_skips_face_verification:
  assumes "body_isPresent req = Some True"
    and "\<not> truthy (body_photoUrl req)"
    and "users e (body_userId req) = Some user"
    and "findOne (body_userId req) (setHours_0_0_0_0 (tzOffset e) (body_date req))
           (setHours_23_59_59_999 (tzOffset e) (body_date req)) ledger = None"
    and "geofenceCheck e user req = None"
    and "\<not> faults FindUser" "\<not> faults FindAttendance" "\<not> faults SaveAttendance"
  shows "post e faults req ledger =
           (Created (newAttendance req),
            [CallFindById (body_userId req), CallFindOne (body_userId req), CallSave],
            ledger @ [newAttendance req]) \<and>
         isPresent (newAttendance req) \<and> status (Created (newAttendance req)) = 201"
proof -
  have f: "faceVerification e user req = (None, [])"
    using assms(2) by (simp add: faceVerification_def)
  have "preCommit e faults req ledger =
          (Inr (newAttendance req), [CallFindById (body_userId req), CallFindOne (body_userId req)])"
    using assms f by (simp add: preCommit_unfold)
  then show ?thesis
    using assms(1,8) by (simp add: post_def commit_def newAttendance_def)
qed

theorem no_photo_skips_face_verification_witness:
  "body_isPresent (demo_request_u2 \<lparr> body_photoUrl := None \<rparr>) = Some True \<and>
   \<not> truthy (body_photoUrl (demo_request_u2 \<lparr> body_photoUrl := None \<rparr>)) \<and>
   users demo_env ''u2'' = Some \<lparr> hostelBlock = ''Valluvar Mens Hostel'', faceEmbedding = None \<rparr> \<and>
   post demo_env no_faults (demo_request_u2 \<lparr> body_photoUrl := None \<rparr>) [] =
     (Created (newAttendance (demo_request_u2 \<lparr> body_photoUrl := None \<rparr>)),
      [CallFindById ''u2'', CallFindOne ''u2'', CallSave],
      [newAttendance (demo_request_u2 \<lparr> body_photoUrl := None \<rparr>)])"
proof -
  let ?r = "demo_request_u2 \<lparr> body_photoUrl := None \<rparr>"
  let ?u = "\<lparr> hostelBlock = ''Valluvar Mens Hostel'', faceEmbedding = None \<rparr>"
  have 1: "body_isPresent ?r = Some True" by (simp add: demo_defs demo_request_u2_def)
  have 2: "\<not> truthy (body_photoUrl ?r)" by (simp add: truthy_def)
  have 3: "users demo_env (body_userId ?r) = Some ?u" by (simp add: demo_defs demo_request_u2_def)
  have 4: "findOne (body_userId ?r) (setHours_0_0_0_0 (tzOffset demo_env) (body_date ?r))
           (setHours_23_59_59_999 (tzOffset demo_env) (body_date ?r)) [] = None"
    by (simp add: findOne_def)
  have 5: "geofenceCheck demo_env ?u ?r = None"
    by (rule geofence_at_center) (simp_all add: demo_defs demo_request_u2_def)
  have 6: "\<not> no_faults FindUser" "\<not> no_faults FindAttendance" "\<not> no_faults SaveAttendance"
    by (simp_all add: no_faults_def)
  have u: "body_userId ?r = ''u2''" by (simp add: demo_defs demo_request_u2_def)
  from no_photo_skips_face_verification[OF 1 2 3 4 5 6]
  show ?thesis using 1 2 3 unfolding u by simp
qed

subsection \<open>Ledger\<close>

text \<open>
  C1. Requests handled one at a time keep the invariant that the records marked present
  have pairwise different (subject, local day) keys, from any ledger that has it. After a
  request for a user and day was answered 201, every later request for the same user and
  day, after any requests in between, changes nothing and is answered with the duplicate
  rejection; when one of its two lookups fails it is answered 500 instead, again without a
  new record.
\<close>

theorem checkins_one_at_a_time:
  "(onePresentPerDay (tzOffset e) ledger \<longrightarrow>
      onePresentPerDay (tzOffset e) (snd (postAll e reqs ledger))) \<and>
   (post e faults req ledger = (Created a, calls, ledger1) \<and>
    body_userId req' = body_userId req \<and>
    localDay (tzOffset e) (body_date req') = localDay (tzOffset e) (body_date req) \<longrightarrow>
      post e faults' req' (snd (postAll e between ledger1)) =
        (if faults' FindUser \<or> faults' FindAttendance then ServerError else AlreadyMarked,
         if faults' FindUser then [CallFindById (body_userId req')]
         else [CallFindById (body_userId req'), CallFindOne (body_userId req')],
         snd (postAll e between ledger1)))"
proof (intro conjI impI)
  assume "onePresentPerDay (tzOffset e) ledger"
  then show "onePresentPerDay (tzOffset e) (snd (postAll e reqs ledger))"
    by (rule postAll_invariant)
next
  assume h: "post e faults req ledger = (Created a, calls, ledger1) \<and>
    body_userId req' = body_userId req \<and>
    localDay (tzOffset e) (body_date req') = localDay (tzOffset e) (body_date req)"
  then have p: "post e faults req ledger = (Created a, calls, ledger1)" by simp
  from post_cases[OF p]
  have a: "a = newAttendance req" and l1: "ledger1 = ledger @ [a]"
    and u: "users e (body_userId req) \<noteq> None"
    by auto
  obtain user where user: "users e (body_userId req') = Some user"
    using u h by auto
  have "a \<in> set ledger1" using l1 by simp
  then have m: "a \<in> set (snd (postAll e between ledger1))"
    using postAll_keeps[of ledger1 e between] by blast
  have k: "userId a = body_userId req'"
    "localDay (tzOffset e) (date a) = localDay (tzOffset e) (body_date req')"
    using a h by (simp_all add: newAttendance_key)
  show "post e faults' req' (snd (postAll e between ledger1)) =
        (if faults' FindUser \<or> faults' FindAttendance then ServerError else AlreadyMarked,
         if faults' FindUser then [CallFindById (body_userId req')]
         else [CallFindById (body_userId req'), CallFindOne (body_userId req')],
         snd (postAll e between ledger1))"
    using post_duplicate[OF user m k] .
qed

theorem checkins_one_at_a_time_witness:
  "onePresentPerDay (tzOffset demo_env) [] \<and>
   onePresentPerDay (tzOffset demo_env)
     (snd (postAll demo_env [(no_faults, demo_request), (no_faults, demo_request)] [])) \<and>
   post demo_env no_faults demo_request [] =
     (Created (newAttendance demo_request),
      [CallFindById ''u1'', CallFindOne ''u1'',
       CallGetFaceEmbedding ''data:image/jpeg;base64,AAAA'',
       CallCalculateSimilarity [1, 0] [1, 0], CallSave],
      [newAttendance demo_request]) \<and>
   post demo_env no_faults demo_request
     (snd (postAll demo_env [(no_faults, demo_request)] [newAttendance demo_request])) =
     (AlreadyMarked, [CallFindById ''u1'', CallFindOne ''u1''], [newAttendance demo_request])"
proof -
  have i: "onePresentPerDay (tzOffset demo_env) []"
    by (simp add: onePresentPerDay_def)
  have s: "snd (postAll demo_env [(no_faults, demo_request)] [newAttendance demo_request]) =
           [newAttendance demo_request]"
    by (simp add: demo_post_again)
  note t = checkins_one_at_a_time[of demo_env "[]"
      "[(no_faults, demo_request), (no_faults, demo_request)]" no_faults demo_request
      "newAttendance demo_request"
      "[CallFindById ''u1'', CallFindOne ''u1'',
        CallGetFaceEmbedding ''data:image/jpeg;base64,AAAA'',
        CallCalculateSimilarity [1, 0] [1, 0], CallSave]"
      "[newAttendance demo_request]" demo_request no_faults "[(no_faults, demo_request)]"]
  have A: "onePresentPerDay (tzOffset demo_env)
     (snd (postAll demo_env [(no_faults, demo_request), (no_faults, demo_request)] []))"
    using t i by blast
  have B: "post demo_env no_faults demo_request
     (snd (postAll demo_env [(no_faults, demo_request)] [newAttendance demo_request])) =
        (if no_faults FindUser \<or> no_faults FindAttendance then ServerError else AlreadyMarked,
         if no_faults FindUser then [CallFindById (body_userId demo_request)]
         else [CallFindById (body_userId demo_request), CallFindOne (body_userId demo_request)],
         snd (postAll demo_env [(no_faults, demo_request)] [newAttendance demo_request]))"
    using t demo_post by blast
  have u: "body_userId demo_request = ''u1''" by (simp add: demo_request_def)
  have f: "\<not> no_faults FindUser" "\<not> no_faults FindAttendance" by (simp_all add: no_faults_def)
  have B': "post demo_env no_faults demo_request
     (snd (postAll demo_env [(no_faults, demo_request)] [newAttendance demo_request])) =
     (AlreadyMarked, [CallFindById ''u1'', CallFindOne ''u1''], [newAttendance demo_request])"
    using B unfolding u s by (simp only: f if_False simp_thms)
  show ?thesis
    using i A demo_post B' by blast
qed

text \<open>
  C7. A request that is not answered 201, whichever gate or failed call turned it away,
  leaves the ledger as it was.
\<close>

theorem rejected_leaves_ledger:
  assumes "post e faults req ledger = (resp, calls, ledger')"
    and "status resp \<noteq> 201"
  shows "ledger' = ledger"
proof -
  have "\<forall>a. resp \<noteq> Created a" using assms(2) by auto
  with post_cases[OF assms(1)] show ?thesis by blast
qed

theorem rejected_leaves_ledger_witness:
  "post demo_env no_faults demo_request [newAttendance demo_request] =
     (AlreadyMarked, [CallFindById ''u1'', CallFindOne ''u1''], [newAttendance demo_request]) \<and>
   status AlreadyMarked \<noteq> 201 \<and>
   [newAttendance demo_request] = [newAttendance demo_request]"
  using rejected_leaves_ledger[OF demo_post_again] demo_post_again by simp

text \<open>
  C6, as amended. When the lookup answers, \<open>GET /check\<close> reports \<open>marked\<close> exactly when
  the ledger holds a record of the user, present or not, whose date falls on the local day
  of the given date, the day before or the day after.
\<close>

theorem check_counts_any_record:
  assumes "\<not> faults FindAttendance"
  shows "checkAttendance tz faults uid d ledger =
           Marked (list_ex (\<lambda>a. userId a = uid \<and> \<bar>localDay tz (date a) - localDay tz d\<bar> \<le> 1) ledger)
                  (find (\<lambda>a. userId a = uid \<and> \<bar>localDay tz (date a) - localDay tz d\<bar> \<le> 1) ledger)"
proof -
  have w: "(\<lambda>a. userId a = uid \<and> setHours_0_0_0_0 tz d - msPerDay \<le> date a \<and>
                date a \<le> setHours_23_59_59_999 tz d + msPerDay) =
           (\<lambda>a. userId a = uid \<and> \<bar>localDay tz (date a) - localDay tz d\<bar> \<le> 1)"
    using widened_window[of tz d] by auto
  show ?thesis
    using assms unfolding checkAttendance_def findOne_def Let_def w
    by (auto simp: find_None_iff list_ex_iff)
qed

theorem check_counts_any_record_witness:
  "\<not> no_faults FindAttendance \<and>
   checkAttendance 19800000 no_faults ''u1'' 1762149600000
     [newAttendance (demo_request \<lparr> body_date := 1762063200000, body_isPresent := Some False \<rparr>)] =
     Marked True
       (Some (newAttendance (demo_request \<lparr> body_date := 1762063200000, body_isPresent := Some False \<rparr>)))"
proof -
  have f: "\<not> no_faults FindAttendance" by (simp add: no_faults_def)
  from check_counts_any_record[of no_faults 19800000 "''u1''" 1762149600000
      "[newAttendance (demo_request \<lparr> body_date := 1762063200000, body_isPresent := Some False \<rparr>)]"]
  show ?thesis using f
    by (simp add: newAttendance_def demo_request_def localDay_def msPerDay_def)
qed

text \<open>
  C6 as stated fails: a single record that is not marked present is reported as marked.
\<close>

theorem check_marked_counterexample:
  "filter isPresent [newAttendance (demo_request \<lparr> body_isPresent := Some False \<rparr>)] = [] \<and>
   checkAttendance 19800000 no_faults ''u1'' 1762149600000
     [newAttendance (demo_request \<lparr> body_isPresent := Some False \<rparr>)] =
     Marked True (Some (newAttendance (demo_request \<lparr> body_isPresent := Some False \<rparr>)))"
  by (simp add: checkAttendance_def findOne_def newAttendance_def demo_request_def no_faults_def
        setHours_0_0_0_0_def setHours_23_59_59_999_def msPerDay_def)

text \<open>
  C2. Two requests for the same user and day that both read the ledger before either saves
  are both answered 201, and the ledger then holds two present records of that user and
  day: the save is unconditional. Handled one after the other, the second is turned away.
\<close>

theorem interleaved_requests_both_commit:
  "run demo_env [0, 1, 0, 1]
     ([Pending no_faults demo_request, Pending no_faults demo_request], []) =
     ([Answered (Created (newAttendance demo_request)),
       Answered (Created (newAttendance demo_request))],
      [newAttendance demo_request, newAttendance demo_request]) \<and>
   isPresent (newAttendance demo_request) \<and>
   \<not> onePresentPerDay (tzOffset demo_env) [newAttendance demo_request, newAttendance demo_request] \<and>
   run demo_env [0, 0, 1, 1]
     ([Pending no_faults demo_request, Pending no_faults demo_request], []) =
     ([Answered (Created (newAttendance demo_request)), Answered AlreadyMarked],
      [newAttendance demo_request])"
proof -
  have a: "isPresent (newAttendance demo_request)"
    by (simp add: newAttendance_def demo_request_def)
  then have b: "\<not> onePresentPerDay (tzOffset demo_env)
                   [newAttendance demo_request, newAttendance demo_request]"
    by (simp add: onePresentPerDay_def)
  have c: "run demo_env [0, 1, 0, 1]
     ([Pending no_faults demo_request, Pending no_faults demo_request], []) =
     ([Answered (Created (newAttendance demo_request)),
       Answered (Created (newAttendance demo_request))],
      [newAttendance demo_request, newAttendance demo_request])"
    by (simp add: demo_preCommit demo_commit)
  have d: "run demo_env [0, 0, 1, 1]
     ([Pending no_faults demo_request, Pending no_faults demo_request], []) =
     ([Answered (Created (newAttendance demo_request)), Answered AlreadyMarked],
      [newAttendance demo_request])"
    by (simp add: demo_preCommit demo_preCommit_again demo_commit)
  show ?thesis using a b c d by blast
qed

end
